theory Spec2Isabelle
  imports Main
begin

section \<open>Data model\<close>

text \<open>
  The types the services import are declared at the end of \<^verbatim>\<open>templateService.ts\<close>. The three
  enumerations below are \<^verbatim>\<open>NotificationChannel\<close>, \<^verbatim>\<open>NotificationPriority\<close> and
  \<^verbatim>\<open>NotificationStatus\<close>, member by member and in the order of their declarations.
\<close>

datatype channel = Email | InApp | Sms | Push | Slack | Teams | Webhook

datatype priority = Low | Medium | High | Critical

datatype status = Pending | Queued | Sending | Sent | Delivered | Failed | Expired | Cancelled

text \<open>The text of each enumeration member, as it appears in template literals and columns.\<close>

fun channel_text :: "channel \<Rightarrow> string" where
  "channel_text Email = ''email''"
| "channel_text InApp = ''in_app''"
| "channel_text Sms = ''sms''"
| "channel_text Push = ''push''"
| "channel_text Slack = ''slack''"
| "channel_text Teams = ''teams''"
| "channel_text Webhook = ''webhook''"

fun priority_text :: "priority \<Rightarrow> string" where
  "priority_text Low = ''low''"
| "priority_text Medium = ''medium''"
| "priority_text High = ''high''"
| "priority_text Critical = ''critical''"

fun status_text :: "status \<Rightarrow> string" where
  "status_text Pending = ''pending''"
| "status_text Queued = ''queued''"
| "status_text Sending = ''sending''"
| "status_text Sent = ''sent''"
| "status_text Delivered = ''delivered''"
| "status_text Failed = ''failed''"
| "status_text Expired = ''expired''"
| "status_text Cancelled = ''cancelled''"

text \<open>
  A thrown value: an \<^verbatim>\<open>Error\<close> with its message, or any other thrown value, for which every
  handler of the services substitutes the message \<^verbatim>\<open>'Unknown error'\<close>.
\<close>

datatype exn = Error string | Thrown

fun error_message :: "exn \<Rightarrow> string" where
  "error_message (Error m) = m"
| "error_message Thrown = ''Unknown error''"

text \<open>A value of the open \<^verbatim>\<open>data\<close> payload: \<^verbatim>\<open>null\<close> or anything else, kept as text.\<close>

datatype jvalue = JNull | JText string

text \<open>Timestamps are milliseconds since the epoch, as \<^verbatim>\<open>Date.now()\<close> counts them.\<close>

type_synonym timestamp = nat

text \<open>
  The interfaces \<^verbatim>\<open>NotificationRequest\<close>, \<^verbatim>\<open>NotificationResponse\<close> and
  \<^verbatim>\<open>NotificationPreferences\<close>. An optional field is an \<open>option\<close>. The notification type is
  kept as its text, which covers the thirteen members of \<^verbatim>\<open>NotificationType\<close>, and the
  per-type preferences are a partial map, since the filter tests whether an entry is there.
  The \<^verbatim>\<open>metadata\<close> of a request and the working hours of the preferences are read by no
  function modelled here; they are left out.
\<close>

record notification_request =
  req_id :: "string option"
  tenantId :: string
  recipientId :: string
  ntype :: string
  channel :: channel
  priority :: priority
  templateId :: string
  data :: "string \<rightharpoonup> jvalue"
  scheduledAt :: "timestamp option"
  expiresAt :: "timestamp option"

record notification_response =
  resp_id :: string
  status :: status
  sentAt :: "timestamp option"
  deliveredAt :: "timestamp option"
  failedAt :: "timestamp option"
  error :: "string option"
  messageId :: "string option"
  trackingId :: "string option"

record type_preferences =
  enabled :: bool
  channels :: "channel list"
  immediateDelivery :: bool

record notification_preferences =
  pref_userId :: string
  pref_tenantId :: string
  emailNotifications :: bool
  inAppNotifications :: bool
  smsNotifications :: bool
  pushNotifications :: bool
  digestFrequency :: string
  notificationTypes :: "string \<rightharpoonup> type_preferences"

section \<open>Preference filter\<close>

text \<open>
  \<^verbatim>\<open>NotificationService.shouldSendNotification\<close>: the per-type entry is looked up once and
  tested twice, then the switch on the channel reads the global flag.
\<close>

definition shouldSendNotification :: "notification_request \<Rightarrow> notification_preferences \<Rightarrow> bool" where
  "shouldSendNotification request preferences =
     (let typePrefs = notificationTypes preferences (ntype request) in
      if (case typePrefs of None \<Rightarrow> False | Some tp \<Rightarrow> \<not> enabled tp) then False
      else if (case typePrefs of None \<Rightarrow> False
               | Some tp \<Rightarrow> channel request \<notin> set (channels tp)) then False
      else (case channel request of
              Email \<Rightarrow> emailNotifications preferences
            | InApp \<Rightarrow> inAppNotifications preferences
            | Sms \<Rightarrow> smsNotifications preferences
            | Push \<Rightarrow> pushNotifications preferences
            | _ \<Rightarrow> True))"

text \<open>
  The guard of \<^verbatim>\<open>sendNotification\<close> around the filter,
  \<^verbatim>\<open>preferences && !this.shouldSendNotification(request, preferences)\<close>: true when the
  request is to be skipped. An absent preferences row never skips.
\<close>

definition skippedByPreferences :: "notification_request \<Rightarrow> notification_preferences option \<Rightarrow> bool" where
  "skippedByPreferences request preferences =
     (case preferences of
        None \<Rightarrow> False
      | Some p \<Rightarrow> \<not> shouldSendNotification request p)"

text \<open>
  The filter as the specification words it, rule by rule, first match winning: the global
  flag of a channel first, then the four ordered rules.
\<close>

fun globalChannelFlag :: "notification_preferences \<Rightarrow> channel \<Rightarrow> bool" where
  "globalChannelFlag p Email = emailNotifications p"
| "globalChannelFlag p InApp = inAppNotifications p"
| "globalChannelFlag p Sms = smsNotifications p"
| "globalChannelFlag p Push = pushNotifications p"
| "globalChannelFlag p other = True"

fun shouldSend_spec :: "notification_request \<Rightarrow> notification_preferences option \<Rightarrow> bool" where
  "shouldSend_spec request None = True"
| "shouldSend_spec request (Some p) =
     (case notificationTypes p (ntype request) of
        None \<Rightarrow> globalChannelFlag p (channel request)
      | Some tp \<Rightarrow>
          if enabled tp = False then False
          else if channel request \<notin> set (channels tp) then False
          else globalChannelFlag p (channel request))"

section \<open>Template renderer\<close>

record template_variable =
  var_name :: string
  required :: bool

record notification_template =
  tpl_subject :: string
  tpl_htmlBody :: string
  tpl_textBody :: string
  tpl_variables :: "template_variable list"

record compiled_template =
  subject :: string
  htmlBody :: string
  textBody :: string

text \<open>\<^verbatim>\<open>Array.prototype.join\<close> on strings.\<close>

fun join_with :: "string \<Rightarrow> string list \<Rightarrow> string" where
  "join_with sep [] = []"
| "join_with sep [x] = x"
| "join_with sep (x # y # ys) = x @ sep @ join_with sep (y # ys)"

text \<open>
  \<^verbatim>\<open>String.prototype.trim\<close> on the ASCII white space (a string is its UTF-8 bytes here, so
  the white space beyond ASCII is not stripped).
\<close>

definition is_space :: "char \<Rightarrow> bool" where
  "is_space c = (c = CHR '' '' \<or> c = CHR 0x09 \<or> c = CHR 0x0A \<or> c = CHR 0x0B \<or>
                 c = CHR 0x0C \<or> c = CHR 0x0D)"

definition trim :: "string \<Rightarrow> string" where
  "trim s = rev (dropWhile is_space (rev (dropWhile is_space s)))"

text \<open>
  \<^verbatim>\<open>TemplateService.validateTemplateData\<close>: the names of the required variables that are
  \<^verbatim>\<open>undefined\<close> or \<^verbatim>\<open>null\<close> in the data are collected in declaration order; any of them
  is an error.
\<close>

definition missingVariables :: "notification_template \<Rightarrow> (string \<rightharpoonup> jvalue) \<Rightarrow> string list" where
  "missingVariables template d =
     map var_name
       (filter (\<lambda>variable. required variable \<and>
                  (d (var_name variable) = None \<or> d (var_name variable) = Some JNull))
               (tpl_variables template))"

definition validateTemplateData :: "notification_template \<Rightarrow> (string \<rightharpoonup> jvalue) \<Rightarrow> exn option" where
  "validateTemplateData template d =
     (if length (missingVariables template d) > 0
      then Some (Error (''Missing required template variables: '' @
                        join_with '', '' (missingVariables template d)))
      else None)"

text \<open>
  The libraries behind the renderer are collaborators: \<^verbatim>\<open>Handlebars.compile\<close> turns a
  template text into a function of the data, and \<^verbatim>\<open>juice\<close> inlines the styles of the HTML
  body. Each of them, and each compiled function, may throw.
\<close>

type_synonym template_fn = "(string \<rightharpoonup> jvalue) \<Rightarrow> exn + string"

record renderer =
  templates :: "string \<rightharpoonup> notification_template"
  handlebarsCompile :: "string \<Rightarrow> exn + template_fn"
  juice :: "string \<Rightarrow> exn + string"

text \<open>
  \<^verbatim>\<open>TemplateService.compileTemplate\<close>: look the template up, validate the data, compile the
  three texts, apply the three functions, inline the styles, trim subject and text body.
  Its handler logs and rethrows, so every error of a step is the error of the call. The
  cache of compiled functions does not change what a call returns.
\<close>

definition compileTemplate ::
  "renderer \<Rightarrow> string \<Rightarrow> (string \<rightharpoonup> jvalue) \<Rightarrow> exn + compiled_template" where
  "compileTemplate rd tid d =
     (case templates rd tid of
        None \<Rightarrow> Inl (Error (''Template not found: '' @ tid))
      | Some template \<Rightarrow>
     (case validateTemplateData template d of
        Some e \<Rightarrow> Inl e
      | None \<Rightarrow>
     (case handlebarsCompile rd (tpl_subject template) of Inl e \<Rightarrow> Inl e | Inr subjectFn \<Rightarrow>
     (case handlebarsCompile rd (tpl_htmlBody template) of Inl e \<Rightarrow> Inl e | Inr htmlFn \<Rightarrow>
     (case handlebarsCompile rd (tpl_textBody template) of Inl e \<Rightarrow> Inl e | Inr textFn \<Rightarrow>
     (case subjectFn d of Inl e \<Rightarrow> Inl e | Inr subject0 \<Rightarrow>
     (case htmlFn d of Inl e \<Rightarrow> Inl e | Inr html0 \<Rightarrow>
     (case textFn d of Inl e \<Rightarrow> Inl e | Inr text0 \<Rightarrow>
     (case juice rd html0 of Inl e \<Rightarrow> Inl e | Inr html1 \<Rightarrow>
        Inr \<lparr>subject = trim subject0, htmlBody = html1, textBody = trim text0\<rparr>)))))))))"

section \<open>Effects of a dispatch\<close>

record mail_options =
  mail_to :: string
  mail_subject :: string
  mail_html :: string
  mail_text :: string

text \<open>
  What a dispatch does to the world, in the order it does it: a row inserted, a status
  written, the transport of a channel called (\<^verbatim>\<open>sendEmail\<close> or one of the two stubs), a
  mail handed to the mail library, an event published. A write or a publish that throws
  leaves no entry.
\<close>

datatype effect =
    Saved string
  | StatusPersisted string notification_response
  | TransportInvoked channel
  | MailSubmitted mail_options
  | EventPublished string notification_request

text \<open>
  JavaScript's \<^verbatim>\<open>x || d\<close> on an optional string: \<^verbatim>\<open>undefined\<close> and the empty string are
  falsy.
\<close>

definition truthy :: "string option \<Rightarrow> bool" where
  "truthy x = (case x of None \<Rightarrow> False | Some s \<Rightarrow> s \<noteq> [])"

definition or_else :: "string option \<Rightarrow> string \<Rightarrow> string" where
  "or_else x d = (case x of None \<Rightarrow> d | Some s \<Rightarrow> if s = [] then d else s)"

text \<open>An optional string inside a template literal.\<close>

definition interpolate :: "string option \<Rightarrow> string" where
  "interpolate x = (case x of None \<Rightarrow> ''undefined'' | Some s \<Rightarrow> s)"

section \<open>Email transport\<close>

text \<open>
  The mail service as \<^verbatim>\<open>sendEmail\<close> finds it: whether \<^verbatim>\<open>ensureValidToken\<close> throws
  (token refresh and transporter set-up), and the transporter that is there afterwards, if
  any. \<^verbatim>\<open>sendMail\<close> returns the message id the transport assigned, or throws.
\<close>

record email_service =
  ensureValidToken :: "exn option"
  transporter :: "(mail_options \<Rightarrow> exn + string) option"

text \<open>The response of the handler of \<^verbatim>\<open>sendEmail\<close>, and of the one of \<^verbatim>\<open>sendNotification\<close>.\<close>

definition failedResponse :: "timestamp \<Rightarrow> string option \<Rightarrow> exn \<Rightarrow> notification_response" where
  "failedResponse now rid e =
     \<lparr>resp_id = or_else rid ''unknown'', status = Failed, sentAt = None, deliveredAt = None,
      failedAt = Some now, error = Some (error_message e), messageId = None,
      trackingId = None\<rparr>"

definition trackingPixel :: "string option \<Rightarrow> string" where
  "trackingPixel rid =
     ''<img src=\"https://app.getailigned.com/api/notifications/track/open/'' @ interpolate rid @
     ''\" width=\"1\" height=\"1\" style=\"display:none;\" alt=\"\" />''"

text \<open>
  The mail that \<^verbatim>\<open>sendEmail\<close> builds: the recipient directory is the mock of the source,
  and the tracking pixel is appended for the priorities high and critical. The headers,
  sender and date of the mail do not bear on the outcome and are left out.
\<close>

definition mailOptions :: "notification_request \<Rightarrow> compiled_template \<Rightarrow> mail_options" where
  "mailOptions notification compiledTemplate =
     \<lparr>mail_to = ''user-'' @ recipientId notification @ ''@example.com'',
      mail_subject = subject compiledTemplate,
      mail_html =
        (if priority notification = High \<or> priority notification = Critical
         then htmlBody compiledTemplate @ trackingPixel (req_id notification)
         else htmlBody compiledTemplate),
      mail_text = textBody compiledTemplate\<rparr>"

text \<open>
  \<^verbatim>\<open>GoogleWorkspaceEmailService.sendEmail\<close>: everything runs inside one \<^verbatim>\<open>try\<close>, and the
  handler returns a failed response, so the function never throws.
\<close>

definition sendEmail ::
  "timestamp \<Rightarrow> email_service \<Rightarrow> notification_request \<Rightarrow> compiled_template \<Rightarrow>
   notification_response \<times> effect list" where
  "sendEmail now service notification compiledTemplate =
     (case ensureValidToken service of
        Some e \<Rightarrow> (failedResponse now (req_id notification) e, [])
      | None \<Rightarrow>
     (case transporter service of
        None \<Rightarrow>
          (failedResponse now (req_id notification) (Error ''Email transporter not initialized''), [])
      | Some sendMail \<Rightarrow>
     (case sendMail (mailOptions notification compiledTemplate) of
        Inl e \<Rightarrow>
          (failedResponse now (req_id notification) e,
           [MailSubmitted (mailOptions notification compiledTemplate)])
      | Inr mid \<Rightarrow>
          (\<lparr>resp_id = or_else (req_id notification) mid, status = Sent,
            sentAt = Some now, deliveredAt = None, failedAt = None, error = None,
            messageId = Some mid, trackingId = Some mid\<rparr>,
           [MailSubmitted (mailOptions notification compiledTemplate)]))))"

section \<open>Dispatch engine\<close>

text \<open>
  The collaborators of \<^verbatim>\<open>NotificationService\<close>. The clock is what \<^verbatim>\<open>new Date()\<close> reads.
  Each database call returns or throws as the database decides: \<open>db_save\<close> returns the id
  of the inserted row, \<open>db_preferences\<close> the stored preferences of a user and tenant, if
  any, \<open>db_update\<close> writes a status. \<open>googleEmailService\<close> is \<^verbatim>\<open>null\<close> when the mail
  service is not configured. \<open>mqChannel\<close> is the channel of the message bus, \<^verbatim>\<open>null\<close>
  until connected; publishing on it may throw.
\<close>

record services =
  clock :: timestamp
  db_save :: "notification_request \<Rightarrow> exn + string"
  db_preferences :: "string \<Rightarrow> string \<Rightarrow> exn + notification_preferences option"
  db_update :: "string \<Rightarrow> notification_response \<Rightarrow> exn option"
  templateService :: renderer
  googleEmailService :: "email_service option"
  mqChannel :: "(string \<Rightarrow> notification_request \<Rightarrow> exn option) option"

text \<open>
  \<^verbatim>\<open>MessageQueueService.publishNotificationEvent\<close>: throws without a channel; its handler
  logs the error of \<^verbatim>\<open>publish\<close> and throws it again.
\<close>

definition publishNotificationEvent ::
  "services \<Rightarrow> string \<Rightarrow> notification_request \<Rightarrow> exn option" where
  "publishNotificationEvent sv routingKey notification =
     (case mqChannel sv of
        None \<Rightarrow> Some (Error ''Channel not initialized'')
      | Some publish \<Rightarrow> publish routingKey notification)"

definition sendEmailNotification ::
  "services \<Rightarrow> notification_request \<Rightarrow> (exn + notification_response) \<times> effect list" where
  "sendEmailNotification sv request =
     (case googleEmailService sv of
        None \<Rightarrow> (Inl (Error ''Google Workspace email service not configured''), [])
      | Some service \<Rightarrow>
     (case compileTemplate (templateService sv) (templateId request) (data request) of
        Inl e \<Rightarrow> (Inl e, [])
      | Inr compiledTemplate \<Rightarrow>
          (Inr (fst (sendEmail (clock sv) service request compiledTemplate)),
           TransportInvoked Email # snd (sendEmail (clock sv) service request compiledTemplate))))"

text \<open>The two stubs, \<^verbatim>\<open>sendInAppNotification\<close> and \<^verbatim>\<open>sendSMSNotification\<close>.\<close>

definition sendInAppNotification :: "services \<Rightarrow> notification_request \<Rightarrow> notification_response" where
  "sendInAppNotification sv request =
     \<lparr>resp_id = or_else (req_id request) ''unknown'', status = Sent, sentAt = Some (clock sv),
      deliveredAt = None, failedAt = None, error = None, messageId = None, trackingId = None\<rparr>"

definition sendSMSNotification :: "services \<Rightarrow> notification_request \<Rightarrow> notification_response" where
  "sendSMSNotification sv request =
     \<lparr>resp_id = or_else (req_id request) ''unknown'', status = Sent, sentAt = Some (clock sv),
      deliveredAt = None, failedAt = None, error = None, messageId = None, trackingId = None\<rparr>"

text \<open>The switch on the channel in \<^verbatim>\<open>sendNotification\<close>.\<close>

definition sendByChannel ::
  "services \<Rightarrow> notification_request \<Rightarrow> (exn + notification_response) \<times> effect list" where
  "sendByChannel sv request =
     (case channel request of
        Email \<Rightarrow> sendEmailNotification sv request
      | InApp \<Rightarrow> (Inr (sendInAppNotification sv request), [TransportInvoked InApp])
      | Sms \<Rightarrow> (Inr (sendSMSNotification sv request), [TransportInvoked Sms])
      | _ \<Rightarrow>
          (Inl (Error (''Unsupported notification channel: '' @ channel_text (channel request))),
           []))"

definition cancelledResponse :: "string \<Rightarrow> notification_response" where
  "cancelledResponse notificationId =
     \<lparr>resp_id = notificationId, status = Cancelled, sentAt = None, deliveredAt = None,
      failedAt = None, error = None, messageId = None, trackingId = None\<rparr>"

definition routingKey :: "notification_request \<Rightarrow> notification_response \<Rightarrow> string" where
  "routingKey request response =
     ''notification.'' @ channel_text (channel request) @ ''.'' @ status_text (status response)"

text \<open>
  The \<^verbatim>\<open>try\<close> block of \<^verbatim>\<open>NotificationService.sendNotification\<close>. It returns the response or
  the thrown value, the \<^verbatim>\<open>id\<close> of the request as the block leaves it (the block assigns the
  id of the saved row to the request), and the effects so far.
\<close>

definition sendNotification_try ::
  "services \<Rightarrow> notification_request \<Rightarrow>
   (exn + notification_response) \<times> string option \<times> effect list" where
  "sendNotification_try sv request0 =
     (case db_save sv request0 of
        Inl e \<Rightarrow> (Inl e, req_id request0, [])
      | Inr notificationId \<Rightarrow>
     (let request = request0\<lparr>req_id := Some notificationId\<rparr> in
     (case db_preferences sv (recipientId request) (tenantId request) of
        Inl e \<Rightarrow> (Inl e, req_id request, [Saved notificationId])
      | Inr preferences \<Rightarrow>
          if skippedByPreferences request preferences then
            (case db_update sv notificationId (cancelledResponse notificationId) of
               Some e \<Rightarrow> (Inl e, req_id request, [Saved notificationId])
             | None \<Rightarrow>
                 (Inr (cancelledResponse notificationId), req_id request,
                  [Saved notificationId,
                   StatusPersisted notificationId (cancelledResponse notificationId)]))
          else
            (case sendByChannel sv request of
               (Inl e, sent) \<Rightarrow> (Inl e, req_id request, Saved notificationId # sent)
             | (Inr response, sent) \<Rightarrow>
            (case db_update sv notificationId response of
               Some e \<Rightarrow> (Inl e, req_id request, Saved notificationId # sent)
             | None \<Rightarrow>
            (case publishNotificationEvent sv (routingKey request response) request of
               Some e \<Rightarrow>
                 (Inl e, req_id request,
                  Saved notificationId # sent @ [StatusPersisted notificationId response])
             | None \<Rightarrow>
                 (Inr response, req_id request,
                  Saved notificationId # sent @
                  [StatusPersisted notificationId response,
                   EventPublished (routingKey request response) request])))))))"

text \<open>
  \<^verbatim>\<open>NotificationService.sendNotification\<close>: the \<^verbatim>\<open>try\<close> block and its handler. The handler
  builds the failed response from the thrown value and, when the request has an id, awaits
  the status update outside any \<^verbatim>\<open>try\<close>: an update that throws there rejects the call.
\<close>

definition sendNotification ::
  "services \<Rightarrow> notification_request \<Rightarrow> (exn + notification_response) \<times> effect list" where
  "sendNotification sv request =
     (case sendNotification_try sv request of
        (Inr response, rid, effects) \<Rightarrow> (Inr response, effects)
      | (Inl e, rid, effects) \<Rightarrow>
          (if truthy rid then
             (case db_update sv (or_else rid ''unknown'') (failedResponse (clock sv) rid e) of
                Some e' \<Rightarrow> (Inl e', effects)
              | None \<Rightarrow>
                  (Inr (failedResponse (clock sv) rid e),
                   effects @
                   [StatusPersisted (or_else rid ''unknown'') (failedResponse (clock sv) rid e)]))
           else (Inr (failedResponse (clock sv) rid e), effects)))"

text \<open>Reading the effects: the transport calls made, the events published, the last status written.\<close>

fun is_transport_call :: "effect \<Rightarrow> bool" where
  "is_transport_call (TransportInvoked c) = True"
| "is_transport_call (MailSubmitted m) = True"
| "is_transport_call other = False"

fun is_publish :: "effect \<Rightarrow> bool" where
  "is_publish (EventPublished k r) = True"
| "is_publish other = False"

fun persistedStatus :: "string \<Rightarrow> effect list \<Rightarrow> status option" where
  "persistedStatus nid [] = None"
| "persistedStatus nid (StatusPersisted i r # rest) =
     (case persistedStatus nid rest of
        None \<Rightarrow> if i = nid then Some (status r) else None
      | Some later \<Rightarrow> Some later)"
| "persistedStatus nid (other # rest) = persistedStatus nid rest"

fun is_mail_submission :: "effect \<Rightarrow> bool" where
  "is_mail_submission (MailSubmitted m) = True"
| "is_mail_submission other = False"

text \<open>
  The response of either stub for a request saved under \<open>nid\<close>, and the error of the
  default branch of the switch on the channel.
\<close>

definition stubResponse :: "services \<Rightarrow> string \<Rightarrow> notification_response" where
  "stubResponse sv nid =
     \<lparr>resp_id = or_else (Some nid) ''unknown'', status = Sent, sentAt = Some (clock sv),
      deliveredAt = None, failedAt = None, error = None, messageId = None, trackingId = None\<rparr>"

definition unsupportedChannel :: "channel \<Rightarrow> exn" where
  "unsupportedChannel c = Error (''Unsupported notification channel: '' @ channel_text c)"

section \<open>Bulk controller\<close>






section \<open>Unsubscribe token\<close>

text \<open>The position of the first occurrence of an element in a list.\<close>

fun index_of :: "'a \<Rightarrow> 'a list \<Rightarrow> nat option" where
  "index_of x [] = None"
| "index_of x (y # ys) = (if x = y then Some 0 else map_option Suc (index_of x ys))"

text \<open>
  \<^verbatim>\<open>Buffer.from(text).toString('base64')\<close>: the Base64 encoding of RFC 4648 with padding,
  three bytes to four characters. A string is the list of its UTF-8 bytes, so
  \<^verbatim>\<open>Buffer.from(text)\<close> and \<^verbatim>\<open>buffer.toString()\<close> are the identity on it.
\<close>

definition base64_alphabet :: string where
  "base64_alphabet = ''ABCDEFGHIJKLMNOPQRSTUVWXYZabcdefghijklmnopqrstuvwxyz0123456789+/''"

definition sextet_char :: "nat \<Rightarrow> char" where
  "sextet_char n = base64_alphabet ! n"

fun base64_encode :: "string \<Rightarrow> string" where
  "base64_encode [] = []"
| "base64_encode [a] =
     [sextet_char (of_char a div 4), sextet_char (of_char a mod 4 * 16), CHR ''='', CHR ''='']"
| "base64_encode [a, b] =
     [sextet_char (of_char a div 4),
      sextet_char (of_char a mod 4 * 16 + of_char b div 16),
      sextet_char (of_char b mod 16 * 4), CHR ''='']"
| "base64_encode (a # b # c # rest) =
     [sextet_char (of_char a div 4),
      sextet_char (of_char a mod 4 * 16 + of_char b div 16),
      sextet_char (of_char b mod 16 * 4 + of_char c div 64),
      sextet_char (of_char c mod 64)] @ base64_encode rest"

text \<open>
  \<^verbatim>\<open>Buffer.from(text, 'base64')\<close>: the decoder of the runtime reads the characters before the
  first padding character, takes the URL-safe characters for their standard ones, skips
  every character outside the alphabet, and turns each group of four sextets into three
  bytes; two or three sextets at the end give one or two bytes.
\<close>

definition char_sextet :: "char \<Rightarrow> nat option" where
  "char_sextet c =
     (if c = CHR ''-'' then Some 62 else if c = CHR ''_'' then Some 63
      else index_of c base64_alphabet)"

fun sextets_bytes :: "nat list \<Rightarrow> string" where
  "sextets_bytes (p # q # r # s # rest) =
     [char_of (p * 4 + q div 16), char_of (q mod 16 * 16 + r div 4), char_of (r mod 4 * 64 + s)]
     @ sextets_bytes rest"
| "sextets_bytes [p, q, r] = [char_of (p * 4 + q div 16), char_of (q mod 16 * 16 + r div 4)]"
| "sextets_bytes [p, q] = [char_of (p * 4 + q div 16)]"
| "sextets_bytes other = []"

definition base64_decode :: "string \<Rightarrow> string" where
  "base64_decode s =
     sextets_bytes (List.map_filter char_sextet (takeWhile (\<lambda>c. c \<noteq> CHR ''='') s))"

text \<open>
  \<^verbatim>\<open>encodeURIComponent\<close>: letters, digits and \<^verbatim>\<open>- _ . ! ~ * ' ( )\<close> stay, every other byte
  becomes a percent sign and two upper-case hexadecimal digits.
\<close>

definition uri_unreserved :: "char \<Rightarrow> bool" where
  "uri_unreserved c =
     (c \<in> set (''ABCDEFGHIJKLMNOPQRSTUVWXYZabcdefghijklmnopqrstuvwxyz0123456789-_.!~*()'' @ [CHR 0x27]))"

definition hex_digit :: "nat \<Rightarrow> char" where
  "hex_digit n = ''0123456789ABCDEF'' ! n"

definition hex_value :: "char \<Rightarrow> nat option" where
  "hex_value c =
     (case index_of c ''0123456789ABCDEF'' of
        Some n \<Rightarrow> Some n
      | None \<Rightarrow> map_option (\<lambda>n. n + 10) (index_of c ''abcdef''))"

definition encodeURIComponent :: "string \<Rightarrow> string" where
  "encodeURIComponent s =
     concat (map (\<lambda>c. if uri_unreserved c then [c]
                       else [CHR ''%'', hex_digit (of_char c div 16), hex_digit (of_char c mod 16)]) s)"

text \<open>
  \<^verbatim>\<open>decodeURIComponent\<close>: a percent sign must be followed by two hexadecimal digits, else
  the function throws (\<open>None\<close>). The check that the decoded bytes are well-formed UTF-8 is
  not modelled.
\<close>

fun decodeURIComponent :: "string \<Rightarrow> string option" where
  "decodeURIComponent [] = Some []"
| "decodeURIComponent [c] = (if c = CHR ''%'' then None else Some [c])"
| "decodeURIComponent [c, d] =
     (if c = CHR ''%'' then None else map_option ((#) c) (decodeURIComponent [d]))"
| "decodeURIComponent (c # h1 # h2 # rest) =
     (if c = CHR ''%''
      then (case (hex_value h1, hex_value h2) of
              (Some a, Some b) \<Rightarrow> map_option ((#) (char_of (a * 16 + b))) (decodeURIComponent rest)
            | _ \<Rightarrow> None)
      else map_option ((#) c) (decodeURIComponent (h1 # h2 # rest)))"

text \<open>\<^verbatim>\<open>String.prototype.split\<close> at a single character.\<close>

fun split_on :: "char \<Rightarrow> string \<Rightarrow> string list" where
  "split_on sep [] = [[]]"
| "split_on sep (c # s) =
     (if c = sep then [] # split_on sep s
      else (case split_on sep s of
              [] \<Rightarrow> [[c]]
            | x # xs \<Rightarrow> (c # x) # xs))"

text \<open>The decimal digits of a number, as a template literal prints \<^verbatim>\<open>Date.now()\<close>.\<close>

definition digit_char :: "nat \<Rightarrow> char" where
  "digit_char n = ''0123456789'' ! n"

function decimal :: "nat \<Rightarrow> string" where
  "decimal n = (if n < 10 then [digit_char n] else decimal (n div 10) @ [digit_char (n mod 10)])"
  by pat_completeness auto
termination
  by (relation "measure id") auto

declare decimal.simps [simp del]

text \<open>
  \<^verbatim>\<open>GoogleWorkspaceEmailService.generateUnsubscribeToken\<close>, at the time \<open>now\<close> that
  \<^verbatim>\<open>Date.now()\<close> reads.
\<close>

definition generateUnsubscribeToken :: "timestamp \<Rightarrow> string \<Rightarrow> string" where
  "generateUnsubscribeToken now rid =
     encodeURIComponent (base64_encode (rid @ '':'' @ decimal now))"

text \<open>
  \<^verbatim>\<open>NotificationController.unsubscribe\<close>, from the token of the query to the reply: 400 for a
  missing token, 400 for an invalid one, 200 with the user id and timestamp that are logged,
  500 when decoding throws. The array pattern \<^verbatim>\<open>[userId, timestamp]\<close> reads the first two
  parts, \<^verbatim>\<open>undefined\<close> where there is none.
\<close>

datatype unsubscribe_reply =
    MissingToken
  | InvalidToken
  | Unsubscribed string string
  | UnsubscribeFailed

definition nth_opt :: "'a list \<Rightarrow> nat \<Rightarrow> 'a option" where
  "nth_opt xs i = (if i < length xs then Some (xs ! i) else None)"

definition unsubscribe :: "string option \<Rightarrow> unsubscribe_reply" where
  "unsubscribe token =
     (if \<not> truthy token then MissingToken
      else (case decodeURIComponent (or_else token []) of
              None \<Rightarrow> UnsubscribeFailed
            | Some encoded \<Rightarrow>
                (let parts = split_on CHR '':'' (base64_decode encoded);
                     userId = nth_opt parts 0;
                     timestamp = nth_opt parts 1
                 in if \<not> truthy userId \<or> \<not> truthy timestamp then InvalidToken
                    else Unsubscribed (or_else userId []) (or_else timestamp []))))"


section \<open>Background sweep\<close>

text \<open>
  A row of the \<^verbatim>\<open>notifications\<close> table, with the columns the sweep reads. The \<^verbatim>\<open>priority\<close>
  column is \<^verbatim>\<open>VARCHAR(20)\<close>: it holds the text of the priority.
\<close>

record notification_row =
  row_id :: string
  row_tenant_id :: string
  row_recipient_id :: string
  row_type :: string
  row_channel :: channel
  row_priority :: priority
  row_template_id :: string
  row_data :: "string \<rightharpoonup> jvalue"
  row_status :: status
  row_scheduled_at :: timestamp
  row_expires_at :: "timestamp option"

text \<open>
  The order of two texts in the database: character by character, by character code. Every
  collation orders the four lower-case ASCII priority texts this way.
\<close>

fun text_less :: "string \<Rightarrow> string \<Rightarrow> bool" where
  "text_less [] [] = False"
| "text_less [] (y # ys) = True"
| "text_less (x # xs) [] = False"
| "text_less (x # xs) (y # ys) =
     ((of_char x :: nat) < of_char y \<or> (x = y \<and> text_less xs ys))"

text \<open>
  \<^verbatim>\<open>ORDER BY priority DESC, scheduled_at ASC\<close>: row \<open>a\<close> comes strictly before row \<open>b\<close>.
\<close>

definition sorts_before :: "notification_row \<Rightarrow> notification_row \<Rightarrow> bool" where
  "sorts_before a b =
     (text_less (priority_text (row_priority b)) (priority_text (row_priority a)) \<or>
      (priority_text (row_priority a) = priority_text (row_priority b) \<and>
       row_scheduled_at a < row_scheduled_at b))"

text \<open>
  Sorting by insertion. Rows that tie keep the order of the table; the database leaves
  their order open.
\<close>

fun insert_ordered :: "notification_row \<Rightarrow> notification_row list \<Rightarrow> notification_row list" where
  "insert_ordered r [] = [r]"
| "insert_ordered r (x # xs) =
     (if sorts_before x r then x # insert_ordered r xs else r # x # xs)"

fun order_rows :: "notification_row list \<Rightarrow> notification_row list" where
  "order_rows [] = []"
| "order_rows (r # rs) = insert_ordered r (order_rows rs)"

text \<open>The \<^verbatim>\<open>WHERE\<close> clause of the sweep at time \<open>now\<close>.\<close>

definition is_due :: "timestamp \<Rightarrow> notification_row \<Rightarrow> bool" where
  "is_due now r =
     (row_status r = Pending \<and> row_scheduled_at r \<le> now \<and>
      (case row_expires_at r of None \<Rightarrow> True | Some t \<Rightarrow> now < t))"

definition row_request :: "notification_row \<Rightarrow> notification_request" where
  "row_request r =
     \<lparr>req_id = Some (row_id r), tenantId = row_tenant_id r, recipientId = row_recipient_id r,
      ntype = row_type r, channel = row_channel r, priority = row_priority r,
      templateId = row_template_id r, data = row_data r,
      scheduledAt = Some (row_scheduled_at r), expiresAt = row_expires_at r\<rparr>"

text \<open>
  \<^verbatim>\<open>DatabaseService.getPendingNotifications\<close> on a table, at time \<open>now\<close>: filter, order,
  limit, and map each row to a request.
\<close>

definition getPendingNotifications ::
  "timestamp \<Rightarrow> nat \<Rightarrow> notification_row list \<Rightarrow> notification_request list" where
  "getPendingNotifications now limit table =
     map row_request (take limit (order_rows (filter (is_due now) table)))"

text \<open>
  The batches of \<^verbatim>\<open>processPendingNotifications\<close>: slices of five, in order.
\<close>

function sweepBatches :: "'a list \<Rightarrow> 'a list list" where
  "sweepBatches xs = (if xs = [] then [] else take 5 xs # sweepBatches (drop 5 xs))"
  by pat_completeness auto
termination
  by (relation "measure length") auto

declare sweepBatches.simps [simp del]

text \<open>
  \<^verbatim>\<open>NotificationService.processPendingNotifications\<close> on a table: a page of fifty, handed to
  \<^verbatim>\<open>sendNotification\<close> batch by batch; \<^verbatim>\<open>Promise.allSettled\<close> keeps every outcome.
\<close>

definition processPendingNotifications ::
  "services \<Rightarrow> notification_row list \<Rightarrow> ((exn + notification_response) \<times> effect list) list list" where
  "processPendingNotifications sv table =
     map (map (sendNotification sv)) (sweepBatches (getPendingNotifications (clock sv) 50 table))"

text \<open>Three pending rows, due at the same time, with priorities low, critical, medium.\<close>

definition sampleRow :: "string \<Rightarrow> priority \<Rightarrow> notification_row" where
  "sampleRow i p =
     \<lparr>row_id = i, row_tenant_id = ''T1'', row_recipient_id = ''U1'',
      row_type = ''work_item_assigned'', row_channel = InApp, row_priority = p,
      row_template_id = ''work_item_assigned'', row_data = Map.empty, row_status = Pending,
      row_scheduled_at = 100, row_expires_at = None\<rparr>"

definition sampleTable :: "notification_row list" where
  "sampleTable = [sampleRow ''r-low'' Low, sampleRow ''r-critical'' Critical,
                  sampleRow ''r-medium'' Medium]"

section \<open>Sample collaborators and requests\<close>

text \<open>
  The entry \<^verbatim>\<open>'work_item_assigned'\<close> of the default catalogue, with the subject and the
  seven variables of the source; its two bodies are long texts in the source that only the
  rendering library reads, and short texts stand for them here. Then libraries that succeed
  (the template text stands for the rendered text), a mail service and a database that
  work, a connected bus, and the request of the end-to-end example of the specification,
  whose data has the six required variables.
\<close>

definition workItemTemplate :: notification_template where
  "workItemTemplate =
     \<lparr>tpl_subject =
        ''{{workItemTypeIcon workItemType}} New {{workItemType}} assigned: {{workItemTitle}}'',
      tpl_htmlBody = ''<p>Hello {{assigneeName}}</p>'',
      tpl_textBody = ''Hello {{assigneeName}}'',
      tpl_variables =
        [\<lparr>var_name = ''assigneeName'', required = True\<rparr>,
         \<lparr>var_name = ''workItemTitle'', required = True\<rparr>,
         \<lparr>var_name = ''workItemType'', required = True\<rparr>,
         \<lparr>var_name = ''priority'', required = True\<rparr>,
         \<lparr>var_name = ''dueDate'', required = False\<rparr>,
         \<lparr>var_name = ''workItemUrl'', required = True\<rparr>,
         \<lparr>var_name = ''organizationName'', required = True\<rparr>]\<rparr>"

definition plainRenderer :: renderer where
  "plainRenderer =
     \<lparr>templates = [''work_item_assigned'' \<mapsto> workItemTemplate],
      handlebarsCompile = (\<lambda>source. Inr (\<lambda>d. Inr source)),
      juice = (\<lambda>html. Inr html)\<rparr>"

definition workingMail :: email_service where
  "workingMail = \<lparr>ensureValidToken = None, transporter = Some (\<lambda>m. Inr ''m-1'')\<rparr>"

definition healthyServices :: services where
  "healthyServices =
     \<lparr>clock = 1000,
      db_save = (\<lambda>r. Inr ''n-1''),
      db_preferences = (\<lambda>u t. Inr None),
      db_update = (\<lambda>i r. None),
      templateService = plainRenderer,
      googleEmailService = Some workingMail,
      mqChannel = Some (\<lambda>k r. None)\<rparr>"

definition assignedRequest :: notification_request where
  "assignedRequest =
     \<lparr>req_id = None, tenantId = ''T1'', recipientId = ''U1'', ntype = ''work_item_assigned'',
      channel = Email, priority = Medium, templateId = ''work_item_assigned'',
      data = [''assigneeName'' \<mapsto> JText ''Ann'', ''workItemTitle'' \<mapsto> JText ''Fix bug'',
              ''workItemType'' \<mapsto> JText ''task'', ''priority'' \<mapsto> JText ''medium'',
              ''workItemUrl'' \<mapsto> JText ''https://x/1'',
              ''organizationName'' \<mapsto> JText ''Acme''],
      scheduledAt = None, expiresAt = None\<rparr>"

text \<open>Preferences that switch the per-type entry of the sample request off.\<close>

definition mutedPreferences :: notification_preferences where
  "mutedPreferences =
     \<lparr>pref_userId = ''U1'', pref_tenantId = ''T1'', emailNotifications = True,
      inAppNotifications = True, smsNotifications = False, pushNotifications = True,
      digestFrequency = ''daily'',
      notificationTypes =
        [''work_item_assigned'' \<mapsto> \<lparr>enabled = False, channels = [Email], immediateDelivery = True\<rparr>]\<rparr>"

definition mutedServices :: services where
  "mutedServices = healthyServices\<lparr>db_preferences := (\<lambda>u t. Inr (Some mutedPreferences))\<rparr>"

text \<open>The responses the sample dispatches end in.\<close>

definition sentByMail :: notification_response where
  "sentByMail =
     \<lparr>resp_id = ''n-1'', status = Sent, sentAt = Some 1000, deliveredAt = None,
      failedAt = None, error = None, messageId = Some ''m-1'', trackingId = Some ''m-1''\<rparr>"

text \<open>
  For a bulk of two requests: a database that gives the request with the unknown template
  id a row of its own.
\<close>

definition bulkServices :: services where
  "bulkServices =
     healthyServices\<lparr>db_save :=
       (\<lambda>r. if templateId r = ''missing'' then Inr ''n-2'' else Inr ''n-1'')\<rparr>"


section \<open>Shape of a response\<close>

text \<open>How many of the three timestamps of a response are set.\<close>

definition timestampsSet :: "notification_response \<Rightarrow> nat" where
  "timestampsSet r = length (filter (\<lambda>t. t \<noteq> None) [sentAt r, deliveredAt r, failedAt r])"

text \<open>
  The shape every response of a dispatch on channel \<open>c\<close> has: at most one timestamp, an
  error exactly on \<^verbatim>\<open>failed\<close>, a message id exactly on the \<^verbatim>\<open>sent\<close> of the email channel,
  and the tracking id equal to the message id.
\<close>

definition responseShape :: "channel \<Rightarrow> notification_response \<Rightarrow> bool" where
  "responseShape c r =
     (timestampsSet r \<le> 1 \<and> (error r \<noteq> None) = (status r = Failed) \<and>
      (messageId r \<noteq> None) = (status r = Sent \<and> c = Email) \<and> trackingId r = messageId r)"

section \<open>The preference filter follows the ordered rules\<close>

text \<open>
  C5. The preference filter is a function of the request and the preferences alone, and it
  computes the ordered rules of the specification: absent preferences send; a per-type entry
  that is disabled suppresses; a per-type entry whose allowed channels exclude the request's
  channel suppresses; otherwise the global flag of the channel decides (email, in_app, sms,
  push), and any other channel sends. The request passes the guard of the dispatch exactly
  when these rules yield true.
\<close>

theorem preference_filter_rules:
  "(\<not> skippedByPreferences request preferences) = shouldSend_spec request preferences"
proof (cases preferences)
  case None
  then show ?thesis by (simp add: skippedByPreferences_def)
next
  case (Some p)
  show ?thesis
  proof (cases "notificationTypes p (ntype request)")
    case None
    with Some show ?thesis
      by (cases "channel request") (simp_all add: skippedByPreferences_def shouldSendNotification_def)
  next
    case (Some tp)
    with \<open>preferences = Some p\<close> show ?thesis
      by (cases "channel request")
         (simp_all add: skippedByPreferences_def shouldSendNotification_def)
  qed
qed

section \<open>Facts about the dispatch shared by the results below\<close>

lemmas sample_defs = workItemTemplate_def plainRenderer_def workingMail_def healthyServices_def
  assignedRequest_def mutedPreferences_def mutedServices_def bulkServices_def

lemmas dispatch_defs = sendNotification_def sendNotification_try_def sendByChannel_def
  sendEmailNotification_def sendEmail_def mailOptions_def compileTemplate_def validateTemplateData_def
  missingVariables_def skippedByPreferences_def shouldSendNotification_def
  publishNotificationEvent_def failedResponse_def cancelledResponse_def routingKey_def
  truthy_def or_else_def sendInAppNotification_def sendSMSNotification_def trim_def is_space_def

lemma skipped_ignores_id:
  "skippedByPreferences (request\<lparr>req_id := x\<rparr>) preferences =
   skippedByPreferences request preferences"
  by (simp add: skippedByPreferences_def shouldSendNotification_def split: option.splits)

text \<open>What the handler returns when the \<^verbatim>\<open>try\<close> block has thrown and its own update succeeds.\<close>

lemma handler_result:
  assumes "sendNotification_try sv request = (Inl e, rid, effects)"
    and "\<And>i. rid = Some i \<Longrightarrow> i \<noteq> [] \<Longrightarrow>
           db_update sv i (failedResponse (clock sv) (Some i) e) = None"
  shows "fst (sendNotification sv request) = Inr (failedResponse (clock sv) rid e)"
  using assms by (cases rid) (simp_all add: sendNotification_def truthy_def or_else_def)

text \<open>The two errors that \<^verbatim>\<open>compileTemplate\<close> throws itself have a message that is not empty.\<close>

lemma own_rendering_errors:
  assumes "compileTemplate rd tid d = Inl e"
    and "templates rd tid = None \<or>
         (\<exists>template. templates rd tid = Some template \<and> validateTemplateData template d \<noteq> None)"
  shows "error_message e \<noteq> []"
  using assms
  by (auto simp: compileTemplate_def validateTemplateData_def split: if_splits)

text \<open>A rendering error of an email request leaves the \<^verbatim>\<open>try\<close> block before the transport.\<close>

lemma rendering_raises:
  assumes "db_save sv request = Inr nid"
    and "db_preferences sv (recipientId request) (tenantId request) = Inr preferences"
    and "\<not> skippedByPreferences request preferences"
    and "channel request = Email"
    and "googleEmailService sv = Some service"
    and "compileTemplate (templateService sv) (templateId request) (data request) = Inl e"
  shows "sendNotification_try sv request = (Inl e, Some nid, [Saved nid])"
  using assms
  by (simp add: sendNotification_try_def skipped_ignores_id sendByChannel_def
      sendEmailNotification_def)

text \<open>The \<^verbatim>\<open>try\<close> block once the transport of the channel has returned and its status is written.\<close>

lemma try_after_transport:
  assumes save: "db_save sv request = Inr nid"
    and prefs: "db_preferences sv (recipientId request) (tenantId request) = Inr preferences"
    and pass: "\<not> skippedByPreferences request preferences"
    and sent: "sendByChannel sv (request\<lparr>req_id := Some nid\<rparr>) = (Inr response, effects)"
    and upd: "db_update sv nid response = None"
  shows "sendNotification_try sv request =
     (case publishNotificationEvent sv (routingKey request response)
             (request\<lparr>req_id := Some nid\<rparr>) of
        None \<Rightarrow> (Inr response, Some nid,
                  Saved nid # effects @ [StatusPersisted nid response,
                     EventPublished (routingKey request response)
                       (request\<lparr>req_id := Some nid\<rparr>)])
      | Some e \<Rightarrow> (Inl e, Some nid, Saved nid # effects @ [StatusPersisted nid response]))"
  using assms
  by (simp add: sendNotification_try_def skipped_ignores_id routingKey_def split: option.splits)

text \<open>The shape of the responses, component by component.\<close>

lemma shape_failed: "responseShape c (failedResponse now rid e)"
  by (simp add: responseShape_def timestampsSet_def failedResponse_def)

lemma shape_cancelled: "responseShape c (cancelledResponse nid)"
  by (simp add: responseShape_def timestampsSet_def cancelledResponse_def)

lemma shape_sent:
  "responseShape Email \<lparr>resp_id = i, status = Sent, sentAt = Some now, deliveredAt = None,
      failedAt = None, error = None, messageId = Some mid, trackingId = Some mid\<rparr>"
  by (simp add: responseShape_def timestampsSet_def)

lemma shape_sendEmail: "responseShape Email (fst (sendEmail now service n ct))"
  by (simp add: sendEmail_def Let_def shape_failed shape_sent split: option.splits sum.splits)

lemma shape_sendByChannel:
  assumes "sendByChannel sv request = (Inr r, effects)"
  shows "responseShape (channel request) r"
proof (cases "channel request")
  case Email
  with assms show ?thesis
    by (auto simp: sendByChannel_def sendEmailNotification_def shape_sendEmail
        split: option.splits sum.splits)
next
  case InApp
  with assms show ?thesis
    by (auto simp: sendByChannel_def sendInAppNotification_def responseShape_def
        timestampsSet_def)
next
  case Sms
  with assms show ?thesis
    by (auto simp: sendByChannel_def sendSMSNotification_def responseShape_def
        timestampsSet_def)
qed (use assms in \<open>simp_all add: sendByChannel_def\<close>)

lemma shape_try:
  assumes "sendNotification_try sv request = (Inr r, rid, effects)"
  shows "responseShape (channel request) r"
proof -
  have byChannel: "\<And>nid x. sendByChannel sv (request\<lparr>req_id := Some nid\<rparr>) = (Inr r, x)
                     \<Longrightarrow> responseShape (channel request) r"
    using shape_sendByChannel by fastforce
  show ?thesis
    using assms
    by (auto simp: sendNotification_try_def Let_def shape_cancelled
        split: sum.splits if_splits option.splits prod.splits dest: byChannel)
qed

lemma shape_sendNotification:
  assumes "fst (sendNotification sv request) = Inr r"
  shows "responseShape (channel request) r"
proof -
  obtain out rid effects where t: "sendNotification_try sv request = (out, rid, effects)"
    by (metis prod_cases3)
  show ?thesis
  proof (cases out)
    case (Inl e)
    with t assms show ?thesis
      by (auto simp: sendNotification_def shape_failed split: if_splits option.splits)
  next
    case (Inr r')
    with t assms shape_try show ?thesis
      by (auto simp: sendNotification_def)
  qed
qed

text \<open>A dispatch on another channel than email hands no mail to the mail library.\<close>

lemma no_mail_by_channel:
  assumes "channel request \<noteq> Email"
  shows "filter is_mail_submission (snd (sendByChannel sv request)) = []"
  using assms by (cases "channel request") (simp_all add: sendByChannel_def)

lemma no_mail_try:
  assumes "channel request \<noteq> Email"
  shows "filter is_mail_submission (snd (snd (sendNotification_try sv request))) = []"
proof -
  have *: "\<And>nid. filter is_mail_submission (snd (sendByChannel sv (request\<lparr>req_id := Some nid\<rparr>))) = []"
    using assms by (intro no_mail_by_channel) simp
  have **: "\<And>nid a b. sendByChannel sv (request\<lparr>req_id := Some nid\<rparr>) = (a, b) \<Longrightarrow> filter is_mail_submission b = []"
    using * by (metis snd_conv)
  show ?thesis
    by (auto simp: sendNotification_try_def Let_def split: sum.splits option.splits prod.splits dest: **)
qed

lemma no_mail_sendNotification:
  assumes "channel request \<noteq> Email"
  shows "filter is_mail_submission (snd (sendNotification sv request)) = []"
proof -
  obtain out rid effects where t: "sendNotification_try sv request = (out, rid, effects)"
    by (metis prod_cases3)
  with no_mail_try[OF assms, of sv] have "filter is_mail_submission effects = []" by simp
  with t show ?thesis
    by (cases out) (simp_all add: sendNotification_def split: option.splits)
qed

text \<open>
  The effects of the transport stay in the effects of the dispatch, and an email request
  that renders, with a valid token and a transporter, hands its mail to the mail library.
\<close>

lemma try_keeps_transport_effects:
  assumes save: "db_save sv request = Inr nid"
    and prefs: "db_preferences sv (recipientId request) (tenantId request) = Inr preferences"
    and pass: "\<not> skippedByPreferences request preferences"
  shows "set (snd (sendByChannel sv (request\<lparr>req_id := Some nid\<rparr>)))
         \<subseteq> set (snd (snd (sendNotification_try sv request)))"
  using assms
  by (auto simp: sendNotification_try_def skipped_ignores_id Let_def
      split: sum.splits option.splits prod.splits)

lemma sendNotification_keeps_effects:
  "set (snd (snd (sendNotification_try sv request))) \<subseteq> set (snd (sendNotification sv request))"
proof -
  obtain out rid effects where t: "sendNotification_try sv request = (out, rid, effects)"
    by (metis prod_cases3)
  then show ?thesis
    by (cases out) (auto simp: sendNotification_def split: option.splits)
qed

lemma mail_submitted:
  assumes "channel request = Email" and "googleEmailService sv = Some service"
    and "compileTemplate (templateService sv) (templateId request) (data request) = Inr ct"
    and "ensureValidToken service = None" and "transporter service = Some sendMail"
  shows "MailSubmitted (mailOptions request ct) \<in> set (snd (sendByChannel sv request))"
  using assms
  by (auto simp: sendByChannel_def sendEmailNotification_def sendEmail_def split: sum.splits)

lemma email_reaches_library:
  assumes save: "db_save sv request = Inr nid"
    and prefs: "db_preferences sv (recipientId request) (tenantId request) = Inr preferences"
    and pass: "\<not> skippedByPreferences request preferences"
    and "channel request = Email" and "googleEmailService sv = Some service"
    and "compileTemplate (templateService sv) (templateId request) (data request) = Inr ct"
    and "ensureValidToken service = None" and "transporter service = Some sendMail"
  shows "MailSubmitted (mailOptions (request\<lparr>req_id := Some nid\<rparr>) ct)
         \<in> set (snd (sendNotification sv request))"
proof -
  have "MailSubmitted (mailOptions (request\<lparr>req_id := Some nid\<rparr>) ct)
        \<in> set (snd (sendByChannel sv (request\<lparr>req_id := Some nid\<rparr>)))"
    using assms by (intro mail_submitted) simp_all
  with try_keeps_transport_effects[OF save prefs pass] sendNotification_keeps_effects[of sv request]
  show ?thesis by blast
qed


text \<open>The page of a sweep: its length, its members, and the members of an ordered list.\<close>

lemma set_insert_ordered: "set (insert_ordered r rs) = insert r (set rs)"
  by (induction rs) auto

lemma set_order_rows: "set (order_rows rs) = set rs"
  by (induction rs) (auto simp: set_insert_ordered)

lemma pending_page_bounded: "length (getPendingNotifications now limit table) \<le> limit"
  by (simp add: getPendingNotifications_def)

lemma pending_page_due:
  assumes "request \<in> set (getPendingNotifications now limit table)"
  shows "\<exists>r \<in> set table. request = row_request r \<and> is_due now r"
proof -
  from assms obtain r where r: "r \<in> set (take limit (order_rows (filter (is_due now) table)))"
    and q: "request = row_request r"
    by (auto simp: getPendingNotifications_def)
  from r have "r \<in> set (order_rows (filter (is_due now) table))"
    by (rule in_set_takeD)
  then have "r \<in> set table \<and> is_due now r"
    by (simp add: set_order_rows)
  with q show ?thesis by blast
qed

section \<open>Facts about the codecs of the unsubscribe token\<close>

lemma index_of_nth:
  "distinct xs \<Longrightarrow> n < length xs \<Longrightarrow> index_of (xs ! n) xs = Some n"
proof (induction xs arbitrary: n)
  case Nil
  then show ?case by simp
next
  case (Cons y ys)
  show ?case
  proof (cases n)
    case 0
    then show ?thesis by simp
  next
    case (Suc m)
    with Cons.prems have "ys ! m \<in> set ys" "y \<notin> set ys" by simp_all
    then have "ys ! m \<noteq> y" by blast
    with Suc Cons show ?thesis by simp
  qed
qed

lemma alphabet_length: "length base64_alphabet = 64"
  by (simp add: base64_alphabet_def)

lemma alphabet_distinct: "distinct base64_alphabet"
  by (simp add: base64_alphabet_def)

lemma alphabet_excludes:
  "CHR ''='' \<notin> set base64_alphabet" "CHR ''-'' \<notin> set base64_alphabet"
  "CHR ''_'' \<notin> set base64_alphabet"
  by (simp_all add: base64_alphabet_def)

lemma sextet_char_in: "n < 64 \<Longrightarrow> sextet_char n \<in> set base64_alphabet"
  by (simp add: sextet_char_def alphabet_length)

lemma sextet_char_not_pad: "n < 64 \<Longrightarrow> sextet_char n \<noteq> CHR ''=''"
  using sextet_char_in alphabet_excludes(1) by metis

lemma char_sextet_sextet_char: "n < 64 \<Longrightarrow> char_sextet (sextet_char n) = Some n"
proof -
  assume n: "n < 64"
  from sextet_char_in[OF n] alphabet_excludes
  have "sextet_char n \<noteq> CHR ''-''" "sextet_char n \<noteq> CHR ''_''" by metis+
  moreover have "index_of (sextet_char n) base64_alphabet = Some n"
    unfolding sextet_char_def using n by (intro index_of_nth alphabet_distinct) (simp add: alphabet_length)
  ultimately show ?thesis by (simp add: char_sextet_def)
qed

lemma decode_quad:
  assumes "p < 64" "q < 64" "r < 64" "s < 64"
  shows "base64_decode (sextet_char p # sextet_char q # sextet_char r # sextet_char s # rest) =
     [char_of (p * 4 + q div 16), char_of (q mod 16 * 16 + r div 4), char_of (r mod 4 * 64 + s)]
     @ base64_decode rest"
  using assms
  by (simp add: base64_decode_def sextet_char_not_pad char_sextet_sextet_char List.map_filter_simps)

lemma decode_triple:
  assumes "p < 64" "q < 64" "r < 64"
  shows "base64_decode [sextet_char p, sextet_char q, sextet_char r, CHR ''=''] =
     [char_of (p * 4 + q div 16), char_of (q mod 16 * 16 + r div 4)]"
  using assms
  by (simp add: base64_decode_def sextet_char_not_pad char_sextet_sextet_char List.map_filter_simps)

lemma decode_pair:
  assumes "p < 64" "q < 64"
  shows "base64_decode [sextet_char p, sextet_char q, CHR ''='', CHR ''=''] =
     [char_of (p * 4 + q div 16)]"
  using assms
  by (simp add: base64_decode_def sextet_char_not_pad char_sextet_sextet_char List.map_filter_simps)

lemma hi_lo: "b < n \<Longrightarrow> (a * n + b) div n = (a::nat)" "b < n \<Longrightarrow> (a * n + b) mod n = b"
  by simp_all

lemma small_div: "y < 256 \<Longrightarrow> y div 16 < (16::nat)" "z < 256 \<Longrightarrow> z div 64 < (4::nat)"
  by (simp_all add: less_mult_imp_div_less)

lemma mult_div: "(a * 16) div 4 = (a::nat) * 4" "(a * 16) div 16 = (a::nat)" "(a * 4) div 4 = (a::nat)"
   by simp_all

lemma byte_first: "x div 4 * 4 + (x mod 4 * 16 + y div 16) div 16 = (x::nat)" if "y < 256"
  using that by (simp add: hi_lo small_div)

lemma byte_second: "(x mod 4 * 16 + y div 16) mod 16 * 16 + (y mod 16 * 4 + z div 64) div 4 = (y::nat)"
  if "y < 256" "z < 256"
  using that by (simp add: hi_lo small_div)

lemma byte_third: "(y mod 16 * 4 + z div 64) mod 4 * 64 + z mod 64 = (z::nat)" if "z < 256"
  using that by (simp add: hi_lo small_div)

lemma byte_first_pad: "x div 4 * 4 + (x mod 4 * 16) div 16 = (x::nat)"
  by simp

lemma byte_second_pad: "(x mod 4 * 16 + y div 16) mod 16 * 16 + (y mod 16 * 4) div 4 = (y::nat)"
  if "y < 256"
  using that by (simp add: hi_lo small_div)

lemma sextet_bounds:
  fixes x y z :: nat
  assumes "x < 256" "y < 256" "z < 256"
  shows "x div 4 < 64" "x mod 4 * 16 + y div 16 < 64" "y mod 16 * 4 + z div 64 < 64" "z mod 64 < 64"
    "x mod 4 * 16 < 64" "y mod 16 * 4 < 64"
proof -
  have a: "x mod 4 < 4" "y mod 16 < 16" by simp_all
  from assms small_div[of y] small_div[of z] a
  show "x div 4 < 64" "x mod 4 * 16 + y div 16 < 64" "y mod 16 * 4 + z div 64 < 64" "z mod 64 < 64"
    "x mod 4 * 16 < 64" "y mod 16 * 4 < 64"
    by (simp_all add: less_mult_imp_div_less) 
qed

lemma base64_roundtrip: "base64_decode (base64_encode bs) = bs"
proof (induction bs rule: base64_encode.induct)
  case 1
  show ?case by (simp add: base64_decode_def List.map_filter_simps)
next
  case (2 a)
  define x :: nat where "x = of_char a"
  have x: "x < 256" by (simp add: x_def)
  have enc: "base64_encode [a] =
      [sextet_char (x div 4), sextet_char (x mod 4 * 16), CHR ''='', CHR ''='']"
    by (simp add: x_def)
  have "base64_decode (base64_encode [a]) = [char_of x]"
    by (simp only: enc decode_pair[OF sextet_bounds(1)[OF x x x] sextet_bounds(5)[OF x x x]]
        byte_first_pad)
  then show ?case by (simp add: x_def)
next
  case (3 a b)
  define x y :: nat where "x = of_char a" and "y = of_char b"
  have x: "x < 256" and y: "y < 256" by (simp_all add: x_def y_def)
  have enc: "base64_encode [a, b] =
      [sextet_char (x div 4), sextet_char (x mod 4 * 16 + y div 16),
       sextet_char (y mod 16 * 4), CHR ''='']"
    by (simp add: x_def y_def)
  have "base64_decode (base64_encode [a, b]) = [char_of x, char_of y]"
    by (simp only: enc
        decode_triple[OF sextet_bounds(1)[OF x y y] sextet_bounds(2)[OF x y y]
          sextet_bounds(6)[OF x y y]]
        byte_first[OF y] byte_second_pad[OF y])
  then show ?case by (simp add: x_def y_def)
next
  case (4 a b c rest)
  define x y z :: nat where "x = of_char a" and "y = of_char b" and "z = of_char c"
  have x: "x < 256" and y: "y < 256" and z: "z < 256" by (simp_all add: x_def y_def z_def)
  have enc: "base64_encode (a # b # c # rest) =
      sextet_char (x div 4) # sextet_char (x mod 4 * 16 + y div 16) #
      sextet_char (y mod 16 * 4 + z div 64) # sextet_char (z mod 64) # base64_encode rest"
    by (simp add: x_def y_def z_def)
  have "base64_decode (base64_encode (a # b # c # rest)) =
      [char_of x, char_of y, char_of z] @ base64_decode (base64_encode rest)"
    by (simp only: enc
        decode_quad[OF sextet_bounds(1)[OF x y z] sextet_bounds(2)[OF x y z]
          sextet_bounds(3)[OF x y z] sextet_bounds(4)[OF x y z]]
        byte_first[OF y] byte_second[OF y z] byte_third[OF z])
  with 4 show ?case by (simp add: x_def y_def z_def)
qed


lemma hex_roundtrip: "n < 16 \<Longrightarrow> hex_value (hex_digit n) = Some n"
proof -
  assume "n < 16"
  then have "index_of (''0123456789ABCDEF'' ! n) ''0123456789ABCDEF'' = Some n"
    by (intro index_of_nth) simp_all
  then show ?thesis by (simp add: hex_value_def hex_digit_def)
qed

lemma decode_plain:
  "c \<noteq> CHR ''%'' \<Longrightarrow> decodeURIComponent (c # s) = map_option ((#) c) (decodeURIComponent s)"
proof (cases s)
  case Nil
  then show "c \<noteq> CHR ''%'' \<Longrightarrow> ?thesis" by simp
next
  case (Cons d t)
  then show "c \<noteq> CHR ''%'' \<Longrightarrow> ?thesis" by (cases t) simp_all
qed

lemma decode_escape:
  "hex_value h1 = Some a \<Longrightarrow> hex_value h2 = Some b \<Longrightarrow>
   decodeURIComponent (CHR ''%'' # h1 # h2 # rest) =
     map_option ((#) (char_of (a * 16 + b))) (decodeURIComponent rest)"
  by simp

lemma unreserved_not_percent: "uri_unreserved c \<Longrightarrow> c \<noteq> CHR ''%''"
  by (auto simp: uri_unreserved_def)

lemma uri_roundtrip: "decodeURIComponent (encodeURIComponent s) = Some s"
proof (induction s)
  case Nil
  show ?case by (simp add: encodeURIComponent_def)
next
  case (Cons c s)
  have step: "encodeURIComponent (c # s) =
      (if uri_unreserved c then [c]
       else [CHR ''%'', hex_digit (of_char c div 16), hex_digit (of_char c mod 16)])
      @ encodeURIComponent s"
    by (simp add: encodeURIComponent_def)
  show ?case
  proof (cases "uri_unreserved c")
    case True
    with Cons step show ?thesis
      by (simp add: decode_plain unreserved_not_percent)
  next
    case False
    have hi: "(of_char c :: nat) div 16 < 16"
      by (simp add: less_mult_imp_div_less)
    have lo: "(of_char c :: nat) mod 16 < 16" by simp
    have "char_of ((of_char c :: nat) div 16 * 16 + of_char c mod 16) = c"
      by simp
    with False Cons step show ?thesis
      by (simp add: hex_roundtrip[OF hi] hex_roundtrip[OF lo])
  qed
qed

lemma split_plain: "sep \<notin> set b \<Longrightarrow> split_on sep b = [b]"
  by (induction b) auto

lemma split_first: "sep \<notin> set a \<Longrightarrow> split_on sep (a @ sep # b) = a # split_on sep b"
  by (induction a) auto

lemma digit_char_not_colon: "n < 10 \<Longrightarrow> CHR '':'' \<noteq> digit_char n"
proof -
  assume "n < 10"
  then have "''0123456789'' ! n \<in> set ''0123456789''" by (intro nth_mem) simp
  then show ?thesis by (auto simp: digit_char_def)
qed

lemma decimal_nonempty: "decimal n \<noteq> []"
  by (subst decimal.simps) simp

lemma decimal_no_colon: "CHR '':'' \<notin> set (decimal n)"
proof (induction n rule: decimal.induct)
  case (1 n)
  show ?case
  proof (cases "n < 10")
    case True
    then show ?thesis by (subst decimal.simps) (simp add: digit_char_not_colon)
  next
    case False
    with 1 have "CHR '':'' \<notin> set (decimal (n div 10))" by simp
    moreover have "CHR '':'' \<noteq> digit_char (n mod 10)" by (intro digit_char_not_colon) simp
    ultimately show ?thesis using False by (subst decimal.simps) simp
  qed
qed

lemma base64_encode_nonempty: "bs \<noteq> [] \<Longrightarrow> base64_encode bs \<noteq> []"
  by (cases bs rule: base64_encode.cases) simp_all

lemma encodeURIComponent_nonempty: "s \<noteq> [] \<Longrightarrow> encodeURIComponent s \<noteq> []"
  by (cases s) (simp_all add: encodeURIComponent_def)

lemma token_decodes:
  "decodeURIComponent (generateUnsubscribeToken now rid) =
     Some (base64_encode (rid @ CHR '':'' # decimal now))"
  by (simp add: generateUnsubscribeToken_def uri_roundtrip)

lemma token_nonempty: "generateUnsubscribeToken now rid \<noteq> []"
  unfolding generateUnsubscribeToken_def
  by (intro encodeURIComponent_nonempty base64_encode_nonempty) simp

lemma token_parts:
  assumes "CHR '':'' \<notin> set rid"
  shows "split_on CHR '':'' (base64_decode (base64_encode (rid @ CHR '':'' # decimal now))) =
     [rid, decimal now]"
  using assms by (simp add: base64_roundtrip split_first split_plain decimal_no_colon)

text \<open>The responses a dispatch writes to the database have the shape of those it returns.\<close>

lemma persisted_by_channel:
  "StatusPersisted i r \<notin> set (snd (sendByChannel sv request))"
  by (cases "channel request")
     (auto simp: sendByChannel_def sendEmailNotification_def sendEmail_def
       split: option.splits sum.splits)

lemma persisted_try:
  assumes "StatusPersisted i r \<in> set (snd (snd (sendNotification_try sv request)))"
  shows "responseShape (channel request) r"
proof -
  have a: "\<And>nid x y. sendByChannel sv (request\<lparr>req_id := Some nid\<rparr>) = (Inr y, x)
                     \<Longrightarrow> responseShape (channel request) y"
    using shape_sendByChannel by fastforce
  have b: "\<And>nid x y. sendByChannel sv (request\<lparr>req_id := Some nid\<rparr>) = (y, x)
                     \<Longrightarrow> StatusPersisted i r \<notin> set x"
    using persisted_by_channel by (metis snd_conv)
  show ?thesis
    using assms
    by (auto simp: sendNotification_try_def Let_def shape_cancelled
        split: sum.splits if_splits option.splits prod.splits dest: a b)
qed

lemma persisted_sendNotification:
  assumes "StatusPersisted i r \<in> set (snd (sendNotification sv request))"
  shows "responseShape (channel request) r"
proof -
  obtain out rid effects where t: "sendNotification_try sv request = (out, rid, effects)"
    by (metis prod_cases3)
  have e: "StatusPersisted i r \<in> set effects \<Longrightarrow> responseShape (channel request) r"
    using persisted_try[of i r sv request] t by simp
  show ?thesis
  proof (cases out)
    case (Inl x)
    with t assms e show ?thesis
      by (auto simp: sendNotification_def shape_failed split: if_splits option.splits)
  next
    case (Inr r')
    with t assms e show ?thesis
      by (auto simp: sendNotification_def)
  qed
qed

text \<open>
  A failure inside the mail transport comes back as the failed response of \<^verbatim>\<open>sendEmail\<close>,
  and a failed outcome of a transport stays failed whatever the rest of the dispatch does.
\<close>

lemma sendEmail_raises:
  "ensureValidToken service = Some e \<Longrightarrow>
     fst (sendEmail now service n ct) = failedResponse now (req_id n) e"
  "ensureValidToken service = None \<Longrightarrow> transporter service = Some sendMail \<Longrightarrow>
   sendMail (mailOptions n ct) = Inl e \<Longrightarrow>
     fst (sendEmail now service n ct) = failedResponse now (req_id n) e"
  by (simp_all add: sendEmail_def)

lemma failed_transport_outcome:
  assumes save: "db_save sv request = Inr nid"
    and prefs: "db_preferences sv (recipientId request) (tenantId request) = Inr preferences"
    and pass: "\<not> skippedByPreferences request preferences"
    and sent: "sendByChannel sv (request\<lparr>req_id := Some nid\<rparr>) = (Inr response, effects)"
    and failed: "status response = Failed"
    and handler: "\<And>e i effects. sendNotification_try sv request = (Inl e, Some i, effects) \<Longrightarrow>
                    i \<noteq> [] \<Longrightarrow> db_update sv i (failedResponse (clock sv) (Some i) e) = None"
  shows "\<exists>r. fst (sendNotification sv request) = Inr r \<and> status r = Failed \<and> error r \<noteq> None"
proof -
  obtain out rid eff where t: "sendNotification_try sv request = (out, rid, eff)"
    by (metis prod_cases3)
  show ?thesis
  proof (cases out)
    case (Inl e)
    with t have "fst (sendNotification sv request) = Inr (failedResponse (clock sv) rid e)"
      by (intro handler_result[of sv request e rid eff]) (auto intro: handler)
    then show ?thesis by (auto simp: failedResponse_def)
  next
    case (Inr r)
    with t have r: "fst (sendNotification sv request) = Inr r"
      by (simp add: sendNotification_def)
    from t Inr save prefs pass sent have "r = response"
      by (auto simp: sendNotification_try_def skipped_ignores_id Let_def split: option.splits)
    moreover from sent have "responseShape (channel request) response"
      using shape_sendByChannel by fastforce
    ultimately show ?thesis using r failed by (auto simp: responseShape_def)
  qed
qed

section \<open>Exceptions inside a dispatch\<close>

text \<open>
  C1, as the code has it. Provided the status update that the handler of
  \<^verbatim>\<open>sendNotification\<close> issues for this request does not throw: \<^verbatim>\<open>sendNotification\<close> returns a
  response; whenever a step of its \<^verbatim>\<open>try\<close> block throws, the response is the failed response
  of the handler, with status \<^verbatim>\<open>failed\<close> and the message of the thrown error as its error
  (\<^verbatim>\<open>'Unknown error'\<close> for a thrown value that is no \<^verbatim>\<open>Error\<close>), which is not empty
  unless that message is; a rendering error of an email request is such a step, and the
  two errors the renderer throws itself, for an unknown template id and for missing
  variables, have a message that is not empty; and when the token refresh or the mail
  library throws inside the mail transport, the call returns a response with status
  \<^verbatim>\<open>failed\<close> and an error.
\<close>

theorem exceptions_become_failed_responses:
  assumes handler:
    "\<And>e i effects. sendNotification_try sv request = (Inl e, Some i, effects) \<Longrightarrow> i \<noteq> [] \<Longrightarrow>
       db_update sv i (failedResponse (clock sv) (Some i) e) = None"
  shows "(\<exists>response. fst (sendNotification sv request) = Inr response) \<and>
         (\<forall>e rid effects. sendNotification_try sv request = (Inl e, rid, effects) \<longrightarrow>
            fst (sendNotification sv request) = Inr (failedResponse (clock sv) rid e) \<and>
            status (failedResponse (clock sv) rid e) = Failed \<and>
            error (failedResponse (clock sv) rid e) = Some (error_message e) \<and>
            (error_message e \<noteq> [] \<longrightarrow> error (failedResponse (clock sv) rid e) \<noteq> Some [])) \<and>
         (\<forall>nid preferences service e.
            db_save sv request = Inr nid \<and>
            db_preferences sv (recipientId request) (tenantId request) = Inr preferences \<and>
            \<not> skippedByPreferences request preferences \<and>
            channel request = Email \<and> googleEmailService sv = Some service \<and>
            compileTemplate (templateService sv) (templateId request) (data request) = Inl e \<longrightarrow>
            fst (sendNotification sv request) = Inr (failedResponse (clock sv) (Some nid) e) \<and>
            (templates (templateService sv) (templateId request) = None \<or>
             (\<exists>template. templates (templateService sv) (templateId request) = Some template \<and>
                validateTemplateData template (data request) \<noteq> None) \<longrightarrow>
             error_message e \<noteq> [])) \<and>
         (\<forall>nid preferences service ct e.
            db_save sv request = Inr nid \<and>
            db_preferences sv (recipientId request) (tenantId request) = Inr preferences \<and>
            \<not> skippedByPreferences request preferences \<and>
            channel request = Email \<and> googleEmailService sv = Some service \<and>
            compileTemplate (templateService sv) (templateId request) (data request) = Inr ct \<and>
            (ensureValidToken service = Some e \<or>
             ensureValidToken service = None \<and>
             (\<exists>sendMail. transporter service = Some sendMail \<and>
                sendMail (mailOptions (request\<lparr>req_id := Some nid\<rparr>) ct) = Inl e)) \<longrightarrow>
            (\<exists>response. fst (sendNotification sv request) = Inr response \<and>
               status response = Failed \<and> error response \<noteq> None))"
proof (intro conjI allI impI)
  have caught: "fst (sendNotification sv request) = Inr (failedResponse (clock sv) rid e)"
    if "sendNotification_try sv request = (Inl e, rid, effects)" for e rid effects
    using that by (intro handler_result[of sv request e rid effects]) (auto intro: handler)
  obtain out rid effects where t: "sendNotification_try sv request = (out, rid, effects)"
    by (metis prod_cases3)
  show "\<exists>response. fst (sendNotification sv request) = Inr response"
  proof (cases out)
    case (Inl e)
    with t caught show ?thesis by blast
  next
    case (Inr r)
    with t show ?thesis by (simp add: sendNotification_def)
  qed
  {
    fix e rid effects
    assume "sendNotification_try sv request = (Inl e, rid, effects)"
    then show "fst (sendNotification sv request) = Inr (failedResponse (clock sv) rid e)"
      by (rule caught)
    show "status (failedResponse (clock sv) rid e) = Failed"
      by (simp add: failedResponse_def)
    show "error (failedResponse (clock sv) rid e) = Some (error_message e)"
      by (simp add: failedResponse_def)
    assume "error_message e \<noteq> []"
    then show "error (failedResponse (clock sv) rid e) \<noteq> Some []"
      by (simp add: failedResponse_def)
  }
  {
    fix nid preferences service e
    assume a: "db_save sv request = Inr nid \<and>
            db_preferences sv (recipientId request) (tenantId request) = Inr preferences \<and>
            \<not> skippedByPreferences request preferences \<and>
            channel request = Email \<and> googleEmailService sv = Some service \<and>
            compileTemplate (templateService sv) (templateId request) (data request) = Inl e"
    with rendering_raises[of sv request nid preferences service e]
    have "sendNotification_try sv request = (Inl e, Some nid, [Saved nid])"
      by simp
    then show "fst (sendNotification sv request) = Inr (failedResponse (clock sv) (Some nid) e)"
      by (rule caught)
    assume "templates (templateService sv) (templateId request) = None \<or>
             (\<exists>template. templates (templateService sv) (templateId request) = Some template \<and>
                validateTemplateData template (data request) \<noteq> None)"
    with a show "error_message e \<noteq> []"
      using own_rendering_errors by blast
  }
  {
    fix nid preferences service ct e
    let ?saved = "request\<lparr>req_id := Some nid\<rparr>"
    assume a: "db_save sv request = Inr nid \<and>
            db_preferences sv (recipientId request) (tenantId request) = Inr preferences \<and>
            \<not> skippedByPreferences request preferences \<and>
            channel request = Email \<and> googleEmailService sv = Some service \<and>
            compileTemplate (templateService sv) (templateId request) (data request) = Inr ct \<and>
            (ensureValidToken service = Some e \<or>
             ensureValidToken service = None \<and>
             (\<exists>sendMail. transporter service = Some sendMail \<and>
                sendMail (mailOptions ?saved ct) = Inl e))"
    then have "fst (sendEmail (clock sv) service ?saved ct) = failedResponse (clock sv) (Some nid) e"
      by (auto simp: sendEmail_raises)
    with a have "fst (sendByChannel sv ?saved) = Inr (failedResponse (clock sv) (Some nid) e)"
      by (simp add: sendByChannel_def sendEmailNotification_def)
    then have sent: "sendByChannel sv ?saved =
        (Inr (failedResponse (clock sv) (Some nid) e), snd (sendByChannel sv ?saved))"
      by (metis prod.collapse)
    have failed: "status (failedResponse (clock sv) (Some nid) e) = Failed"
      by (simp add: failedResponse_def)
    from a have save: "db_save sv request = Inr nid"
      and prefs: "db_preferences sv (recipientId request) (tenantId request) = Inr preferences"
      and pass: "\<not> skippedByPreferences request preferences"
      by simp_all
    show "\<exists>response. fst (sendNotification sv request) = Inr response \<and>
                 status response = Failed \<and> error response \<noteq> None"
      by (rule failed_transport_outcome[OF save prefs pass sent failed handler])
  }
qed

text \<open>
  The sample request with an unknown template id, on working collaborators: rendering throws
  and the call returns the failed response, whose error is not empty.
\<close>

theorem exceptions_become_failed_responses_witness:
  "sendNotification_try healthyServices (assignedRequest\<lparr>templateId := ''missing''\<rparr>) =
     (Inl (Error ''Template not found: missing''), Some ''n-1'', [Saved ''n-1'']) \<and>
   db_update healthyServices ''n-1''
     (failedResponse (clock healthyServices) (Some ''n-1'')
        (Error ''Template not found: missing'')) = None \<and>
   compileTemplate (templateService healthyServices) ''missing'' (data assignedRequest)
     = Inl (Error ''Template not found: missing'') \<and>
   fst (sendNotification healthyServices (assignedRequest\<lparr>templateId := ''missing''\<rparr>)) =
     Inr \<lparr>resp_id = ''n-1'', status = Failed, sentAt = None, deliveredAt = None,
          failedAt = Some 1000, error = Some ''Template not found: missing'', messageId = None,
          trackingId = None\<rparr>"
proof -
  have h: "db_update healthyServices i r = None" for i r
    by (simp add: healthyServices_def)
  have c: "compileTemplate (templateService healthyServices) ''missing'' (data assignedRequest)
     = Inl (Error ''Template not found: missing'')"
    by (simp add: sample_defs compileTemplate_def)
  have t: "sendNotification_try healthyServices (assignedRequest\<lparr>templateId := ''missing''\<rparr>) =
     (Inl (Error ''Template not found: missing''), Some ''n-1'', [Saved ''n-1''])"
    by (simp add: sample_defs dispatch_defs)
  from exceptions_become_failed_responses[of healthyServices
         "assignedRequest\<lparr>templateId := ''missing''\<rparr>", OF h]
  have "fst (sendNotification healthyServices (assignedRequest\<lparr>templateId := ''missing''\<rparr>)) =
     Inr (failedResponse (clock healthyServices) (Some ''n-1'')
            (Error ''Template not found: missing''))"
    using t by blast
  with h c t show ?thesis
    by (simp add: failedResponse_def or_else_def healthyServices_def)
qed

text \<open>
  Two dispatches of the sample request that end otherwise. With an unknown template id and
  a database that rejects every status update, rendering throws, the update of the handler
  throws, and the second exception leaves \<^verbatim>\<open>sendNotification\<close>. With a style inliner that
  throws an error whose message is empty, the call returns a failed response whose error is
  empty.
\<close>

theorem handler_update_escapes:
  "compileTemplate (templateService healthyServices) ''missing'' (data assignedRequest)
     = Inl (Error ''Template not found: missing'') \<and>
   fst (sendNotification
          (healthyServices\<lparr>db_update := (\<lambda>i r. Some (Error ''connection terminated''))\<rparr>)
          (assignedRequest\<lparr>templateId := ''missing''\<rparr>)) = Inl (Error ''connection terminated'') \<and>
   compileTemplate (plainRenderer\<lparr>juice := (\<lambda>html. Inl (Error []))\<rparr>)
     (templateId assignedRequest) (data assignedRequest) = Inl (Error []) \<and>
   fst (sendNotification
          (healthyServices\<lparr>templateService := plainRenderer\<lparr>juice := (\<lambda>html. Inl (Error []))\<rparr>\<rparr>)
          assignedRequest) =
     Inr \<lparr>resp_id = ''n-1'', status = Failed, sentAt = None, deliveredAt = None,
          failedAt = Some 1000, error = Some [], messageId = None, trackingId = None\<rparr>"
  by (simp add: sample_defs dispatch_defs)

section \<open>Cancellation by the preference filter\<close>

text \<open>
  C2. For every request that is saved, whose preferences are read and whose preference
  filter returns false: the dispatch calls no transport and submits no mail, publishes no
  event, and, the write of the cancelled status done, returns the cancelled response and
  leaves \<^verbatim>\<open>cancelled\<close> as the last status written for the request. A write that throws is
  a fault of the persistence, which the handler of the dispatch takes over as it does any
  other exception.
\<close>

theorem cancelled_by_preferences:
  assumes save: "db_save sv request = Inr nid"
    and prefs: "db_preferences sv (recipientId request) (tenantId request) = Inr preferences"
    and skipped: "skippedByPreferences request preferences"
  shows "filter is_transport_call (snd (sendNotification sv request)) = [] \<and>
         filter is_publish (snd (sendNotification sv request)) = [] \<and>
         (db_update sv nid (cancelledResponse nid) = None \<longrightarrow>
            fst (sendNotification sv request) = Inr (cancelledResponse nid) \<and>
            status (cancelledResponse nid) = Cancelled \<and>
            persistedStatus nid (snd (sendNotification sv request)) = Some Cancelled)"
proof (cases "db_update sv nid (cancelledResponse nid)")
  case None
  with assms have t: "sendNotification_try sv request =
      (Inr (cancelledResponse nid), Some nid,
       [Saved nid, StatusPersisted nid (cancelledResponse nid)])"
    by (simp add: sendNotification_try_def skipped_ignores_id)
  then show ?thesis using None
    by (simp add: sendNotification_def cancelledResponse_def)
next
  case (Some e)
  with assms have t: "sendNotification_try sv request = (Inl e, Some nid, [Saved nid])"
    by (simp add: sendNotification_try_def skipped_ignores_id)
  then show ?thesis using Some
    by (simp add: sendNotification_def split: option.splits)
qed

text \<open>The sample request of a user who switched its notification type off.\<close>

theorem cancelled_by_preferences_witness:
  "db_save mutedServices assignedRequest = Inr ''n-1'' \<and>
   db_preferences mutedServices (recipientId assignedRequest) (tenantId assignedRequest) =
     Inr (Some mutedPreferences) \<and>
   skippedByPreferences assignedRequest (Some mutedPreferences) \<and>
   db_update mutedServices ''n-1'' (cancelledResponse ''n-1'') = None \<and>
   filter is_transport_call (snd (sendNotification mutedServices assignedRequest)) = [] \<and>
   filter is_publish (snd (sendNotification mutedServices assignedRequest)) = [] \<and>
   fst (sendNotification mutedServices assignedRequest) = Inr (cancelledResponse ''n-1'') \<and>
   persistedStatus ''n-1'' (snd (sendNotification mutedServices assignedRequest)) = Some Cancelled"
proof -
  have a: "db_save mutedServices assignedRequest = Inr ''n-1''"
    by (simp add: mutedServices_def healthyServices_def)
  have b: "db_preferences mutedServices (recipientId assignedRequest) (tenantId assignedRequest)
           = Inr (Some mutedPreferences)"
    by (simp add: mutedServices_def healthyServices_def)
  have c: "skippedByPreferences assignedRequest (Some mutedPreferences)"
    by (simp add: skippedByPreferences_def shouldSendNotification_def mutedPreferences_def
        assignedRequest_def)
  have d: "db_update mutedServices ''n-1'' (cancelledResponse ''n-1'') = None"
    by (simp add: mutedServices_def healthyServices_def)
  from cancelled_by_preferences[OF a b c] a b c d show ?thesis by simp
qed

section \<open>Expiry at dispatch time\<close>

text \<open>
  C3 does not hold of the code: \<^verbatim>\<open>sendNotification\<close> never reads \<^verbatim>\<open>expiresAt\<close>. The sample
  request with an expiry of 500, dispatched at time 1000 on working collaborators, passes
  the validation of its template data, is rendered, reaches the mail transport, which hands
  one mail to the mail library, and is returned as \<^verbatim>\<open>sent\<close>.
\<close>

theorem expired_request_is_delivered:
  "expiresAt (assignedRequest\<lparr>expiresAt := Some 500\<rparr>) = Some 500 \<and>
   500 < clock healthyServices \<and>
   validateTemplateData workItemTemplate (data (assignedRequest\<lparr>expiresAt := Some 500\<rparr>))
     = None \<and>
   fst (sendNotification healthyServices (assignedRequest\<lparr>expiresAt := Some 500\<rparr>)) =
     Inr \<lparr>resp_id = ''n-1'', status = Sent, sentAt = Some 1000, deliveredAt = None,
          failedAt = None, error = None, messageId = Some ''m-1'', trackingId = Some ''m-1''\<rparr> \<and>
   map is_mail_submission
     (filter is_transport_call
        (snd (sendNotification healthyServices (assignedRequest\<lparr>expiresAt := Some 500\<rparr>))))
     = [False, True] \<and>
   hd (filter is_transport_call
        (snd (sendNotification healthyServices (assignedRequest\<lparr>expiresAt := Some 500\<rparr>))))
     = TransportInvoked Email"
  by (simp add: sample_defs dispatch_defs)

section \<open>A publish that fails\<close>

text \<open>
  C4, as the code has it. For every request whose transport has returned an outcome and
  whose status write has succeeded: when the event publish succeeds, \<^verbatim>\<open>sendNotification\<close>
  returns the outcome of the transport; when the publish throws, the handler of
  \<^verbatim>\<open>sendNotification\<close> takes over, and the call returns the failed response built from the
  publish error (or throws, when the handler's own status update throws).
\<close>

theorem publish_failure_outcome:
  assumes save: "db_save sv request = Inr nid"
    and prefs: "db_preferences sv (recipientId request) (tenantId request) = Inr preferences"
    and pass: "\<not> skippedByPreferences request preferences"
    and sent: "sendByChannel sv (request\<lparr>req_id := Some nid\<rparr>) = (Inr response, effects)"
    and upd: "db_update sv nid response = None"
  shows "fst (sendNotification sv request) =
     (case publishNotificationEvent sv (routingKey request response)
             (request\<lparr>req_id := Some nid\<rparr>) of
        None \<Rightarrow> Inr response
      | Some e \<Rightarrow>
          (if nid = [] then Inr (failedResponse (clock sv) (Some nid) e)
           else (case db_update sv nid (failedResponse (clock sv) (Some nid) e) of
                   None \<Rightarrow> Inr (failedResponse (clock sv) (Some nid) e)
                 | Some e' \<Rightarrow> Inl e')))"
  using try_after_transport[OF assms]
  by (simp add: sendNotification_def truthy_def or_else_def split: option.splits)

text \<open>
  The sample request on working collaborators: the publish succeeds and the call returns
  the outcome of the mail transport.
\<close>

theorem publish_failure_outcome_witness:
  "db_save healthyServices assignedRequest = Inr ''n-1'' \<and>
   db_preferences healthyServices (recipientId assignedRequest) (tenantId assignedRequest) = Inr None \<and>
   \<not> skippedByPreferences assignedRequest None \<and>
   fst (sendByChannel healthyServices (assignedRequest\<lparr>req_id := Some ''n-1''\<rparr>)) = Inr sentByMail \<and>
   db_update healthyServices ''n-1'' sentByMail = None \<and>
   publishNotificationEvent healthyServices (routingKey assignedRequest sentByMail)
     (assignedRequest\<lparr>req_id := Some ''n-1''\<rparr>) = None \<and>
   fst (sendNotification healthyServices assignedRequest) = Inr sentByMail"
proof -
  have a: "db_save healthyServices assignedRequest = Inr ''n-1''"
    by (simp add: healthyServices_def)
  have b: "db_preferences healthyServices (recipientId assignedRequest) (tenantId assignedRequest) = Inr None"
    by (simp add: healthyServices_def)
  have c: "\<not> skippedByPreferences assignedRequest None"
    by (simp add: skippedByPreferences_def)
  have d': "fst (sendByChannel healthyServices (assignedRequest\<lparr>req_id := Some ''n-1''\<rparr>)) =
      Inr sentByMail"
    by (simp add: sample_defs dispatch_defs sentByMail_def)
  then have d: "sendByChannel healthyServices (assignedRequest\<lparr>req_id := Some ''n-1''\<rparr>) =
      (Inr sentByMail, snd (sendByChannel healthyServices (assignedRequest\<lparr>req_id := Some ''n-1''\<rparr>)))"
    by (metis prod.collapse)
  have e: "db_update healthyServices ''n-1'' sentByMail = None"
    by (simp add: healthyServices_def)
  have f: "publishNotificationEvent healthyServices (routingKey assignedRequest sentByMail)
     (assignedRequest\<lparr>req_id := Some ''n-1''\<rparr>) = None"
    by (simp add: healthyServices_def publishNotificationEvent_def)
  from publish_failure_outcome[OF a b c d e] f
  have "fst (sendNotification healthyServices assignedRequest) = Inr sentByMail" by simp
  with a b c d' e f show ?thesis by simp
qed

text \<open>
  The sample request when the bus has no channel: the mail is sent and its status written,
  the publish throws, and the call returns \<^verbatim>\<open>failed\<close> instead of the transport's \<^verbatim>\<open>sent\<close>.
\<close>

theorem publish_failure_replaces_outcome:
  "fst (sendByChannel (healthyServices\<lparr>mqChannel := None\<rparr>)
          (assignedRequest\<lparr>req_id := Some ''n-1''\<rparr>)) = Inr sentByMail \<and>
   fst (sendNotification (healthyServices\<lparr>mqChannel := None\<rparr>) assignedRequest) =
     Inr \<lparr>resp_id = ''n-1'', status = Failed, sentAt = None, deliveredAt = None,
          failedAt = Some 1000, error = Some ''Channel not initialized'', messageId = None,
          trackingId = None\<rparr>"
  by (simp add: sample_defs dispatch_defs sentByMail_def)

section \<open>Bulk dispatch\<close>




section \<open>Channels\<close>

text \<open>
  C8, as the code has it. For every request that is saved and passes the preference filter:
  on the channels in_app and sms the dispatch resolves through a stub that returns \<^verbatim>\<open>sent\<close>
  (when the status write and the publish succeed); on push, slack, teams and webhook the
  switch throws \<^verbatim>\<open>Unsupported notification channel\<close> and the dispatch resolves to
  \<^verbatim>\<open>failed\<close> with that message (when the status update of the handler succeeds); on every
  channel but email no mail is handed to the mail library; and on email a request whose
  template renders, with a mail service that has a valid token and a transporter, hands its
  mail to the mail library.
\<close>

theorem channel_resolution:
  assumes save: "db_save sv request = Inr nid"
    and prefs: "db_preferences sv (recipientId request) (tenantId request) = Inr preferences"
    and pass: "\<not> skippedByPreferences request preferences"
  shows "(channel request = InApp \<or> channel request = Sms \<longrightarrow>
            db_update sv nid (stubResponse sv nid) = None \<longrightarrow>
            publishNotificationEvent sv (routingKey request (stubResponse sv nid))
              (request\<lparr>req_id := Some nid\<rparr>) = None \<longrightarrow>
            fst (sendNotification sv request) = Inr (stubResponse sv nid) \<and>
            status (stubResponse sv nid) = Sent) \<and>
         (channel request = Push \<or> channel request = Slack \<or> channel request = Teams \<or>
          channel request = Webhook \<longrightarrow>
            db_update sv nid (failedResponse (clock sv) (Some nid)
                                (unsupportedChannel (channel request))) = None \<longrightarrow>
            fst (sendNotification sv request) =
              Inr (failedResponse (clock sv) (Some nid) (unsupportedChannel (channel request)))) \<and>
         (channel request \<noteq> Email \<longrightarrow>
            filter is_mail_submission (snd (sendNotification sv request)) = []) \<and>
         (\<forall>service ct sendMail.
            channel request = Email \<and> googleEmailService sv = Some service \<and>
            compileTemplate (templateService sv) (templateId request) (data request) = Inr ct \<and>
            ensureValidToken service = None \<and> transporter service = Some sendMail \<longrightarrow>
            MailSubmitted (mailOptions (request\<lparr>req_id := Some nid\<rparr>) ct)
              \<in> set (snd (sendNotification sv request)))"
proof (intro conjI impI allI)
  assume c: "channel request = InApp \<or> channel request = Sms"
    and u: "db_update sv nid (stubResponse sv nid) = None"
    and p: "publishNotificationEvent sv (routingKey request (stubResponse sv nid))
              (request\<lparr>req_id := Some nid\<rparr>) = None"
  from c have "\<exists>effects. sendByChannel sv (request\<lparr>req_id := Some nid\<rparr>) = (Inr (stubResponse sv nid), effects)"
    by (auto simp: sendByChannel_def sendInAppNotification_def sendSMSNotification_def stubResponse_def)
  then obtain effects where s: "sendByChannel sv (request\<lparr>req_id := Some nid\<rparr>) = (Inr (stubResponse sv nid), effects)" ..
  from try_after_transport[OF save prefs pass s u] p
  show "fst (sendNotification sv request) = Inr (stubResponse sv nid)"
    by (simp add: sendNotification_def)
next
  show "status (stubResponse sv nid) = Sent" by (simp add: stubResponse_def)
next
  assume c: "channel request = Push \<or> channel request = Slack \<or> channel request = Teams \<or>
          channel request = Webhook"
    and u: "db_update sv nid (failedResponse (clock sv) (Some nid)
                                (unsupportedChannel (channel request))) = None"
  from c save prefs pass
  have "sendNotification_try sv request = (Inl (unsupportedChannel (channel request)), Some nid, [Saved nid])"
    by (auto simp: sendNotification_try_def skipped_ignores_id sendByChannel_def unsupportedChannel_def)
  with u show "fst (sendNotification sv request) =
              Inr (failedResponse (clock sv) (Some nid) (unsupportedChannel (channel request)))"
    by (simp add: sendNotification_def truthy_def or_else_def)
next
  assume "channel request \<noteq> Email"
  then show "filter is_mail_submission (snd (sendNotification sv request)) = []"
    by (rule no_mail_sendNotification)
next
  fix service ct sendMail
  assume "channel request = Email \<and> googleEmailService sv = Some service \<and>
            compileTemplate (templateService sv) (templateId request) (data request) = Inr ct \<and>
            ensureValidToken service = None \<and> transporter service = Some sendMail"
  then show "MailSubmitted (mailOptions (request\<lparr>req_id := Some nid\<rparr>) ct)
              \<in> set (snd (sendNotification sv request))"
    using email_reaches_library[OF save prefs pass, of service ct sendMail] by blast
qed

text \<open>The sample request on in_app and on webhook.\<close>

theorem channel_resolution_witness:
  "db_save healthyServices (assignedRequest\<lparr>channel := InApp\<rparr>) = Inr ''n-1'' \<and>
   \<not> skippedByPreferences (assignedRequest\<lparr>channel := InApp\<rparr>) None \<and>
   fst (sendNotification healthyServices (assignedRequest\<lparr>channel := InApp\<rparr>)) =
     Inr (stubResponse healthyServices ''n-1'') \<and>
   status (stubResponse healthyServices ''n-1'') = Sent \<and>
   fst (sendNotification healthyServices (assignedRequest\<lparr>channel := Webhook\<rparr>)) =
     Inr (failedResponse 1000 (Some ''n-1'') (unsupportedChannel Webhook)) \<and>
   filter is_mail_submission
     (snd (sendNotification healthyServices (assignedRequest\<lparr>channel := InApp\<rparr>))) = [] \<and>
   (\<exists>ct. compileTemplate (templateService healthyServices) (templateId assignedRequest)
           (data assignedRequest) = Inr ct \<and>
         MailSubmitted (mailOptions (assignedRequest\<lparr>req_id := Some ''n-1''\<rparr>) ct)
           \<in> set (snd (sendNotification healthyServices assignedRequest)))"
proof -
  have p: "\<not> skippedByPreferences r None" for r
    by (simp add: skippedByPreferences_def)
  have a: "db_save healthyServices r = Inr ''n-1''" for r
    by (simp add: healthyServices_def)
  have b: "db_preferences healthyServices (recipientId r) (tenantId r) = Inr None" for r
    by (simp add: healthyServices_def)
  have u: "db_update healthyServices i x = None" for i x
    by (simp add: healthyServices_def)
  have q: "publishNotificationEvent healthyServices k r = None" for k r
    by (simp add: healthyServices_def publishNotificationEvent_def)
  have c: "clock healthyServices = 1000" by (simp add: healthyServices_def)
  obtain ct where ct: "compileTemplate (templateService healthyServices)
      (templateId assignedRequest) (data assignedRequest) = Inr ct"
    by (simp add: sample_defs compileTemplate_def validateTemplateData_def missingVariables_def)
  have m: "channel assignedRequest = Email \<and> googleEmailService healthyServices = Some workingMail \<and>
      ensureValidToken workingMail = None \<and> transporter workingMail = Some (\<lambda>m. Inr ''m-1'')"
    by (simp add: sample_defs)
  from channel_resolution[OF a b p, of assignedRequest] ct m
  have e: "MailSubmitted (mailOptions (assignedRequest\<lparr>req_id := Some ''n-1''\<rparr>) ct)
           \<in> set (snd (sendNotification healthyServices assignedRequest))"
    by blast
  from channel_resolution[OF a b p, of "assignedRequest\<lparr>channel := InApp\<rparr>"]
       channel_resolution[OF a b p, of "assignedRequest\<lparr>channel := Webhook\<rparr>"]
       a p u q c
  have "fst (sendNotification healthyServices (assignedRequest\<lparr>channel := InApp\<rparr>)) =
     Inr (stubResponse healthyServices ''n-1'') \<and>
   status (stubResponse healthyServices ''n-1'') = Sent \<and>
   fst (sendNotification healthyServices (assignedRequest\<lparr>channel := Webhook\<rparr>)) =
     Inr (failedResponse 1000 (Some ''n-1'') (unsupportedChannel Webhook)) \<and>
   filter is_mail_submission
     (snd (sendNotification healthyServices (assignedRequest\<lparr>channel := InApp\<rparr>))) = []"
    by simp
  with a p ct e show ?thesis by blast
qed

text \<open>The sample request on push: no stub, the dispatch fails.\<close>

theorem push_is_unsupported:
  "fst (sendNotification healthyServices (assignedRequest\<lparr>channel := Push\<rparr>)) =
     Inr \<lparr>resp_id = ''n-1'', status = Failed, sentAt = None, deliveredAt = None,
          failedAt = Some 1000, error = Some ''Unsupported notification channel: push'',
          messageId = None, trackingId = None\<rparr>"
  by (simp add: sample_defs dispatch_defs)

section \<open>Shape of the responses of a dispatch\<close>

text \<open>
  C9, as the code has it. Every response that \<^verbatim>\<open>sendNotification\<close> returns or writes to
  the database has at most one
  of \<^verbatim>\<open>sentAt\<close>, \<^verbatim>\<open>deliveredAt\<close>, \<^verbatim>\<open>failedAt\<close> set, has an error exactly when its status is
  \<^verbatim>\<open>failed\<close>, has a message id exactly when it is the \<^verbatim>\<open>sent\<close> response of the email
  channel, and has a tracking id equal to its message id. The \<^verbatim>\<open>sent\<close> responses of the
  in-app and SMS stubs carry neither id.
\<close>

theorem response_shape:
  assumes "fst (sendNotification sv request) = Inr r \<or>
           StatusPersisted i r \<in> set (snd (sendNotification sv request))"
  shows "timestampsSet r \<le> 1 \<and>
         (error r \<noteq> None) = (status r = Failed) \<and>
         (messageId r \<noteq> None) = (status r = Sent \<and> channel request = Email) \<and>
         trackingId r = messageId r"
proof -
  from assms have "responseShape (channel request) r"
    using shape_sendNotification persisted_sendNotification by blast
  then show ?thesis by (simp add: responseShape_def)
qed

text \<open>The sample request, sent by mail.\<close>

theorem response_shape_witness:
  "fst (sendNotification healthyServices assignedRequest) = Inr sentByMail \<and>
   timestampsSet sentByMail \<le> 1 \<and>
   (error sentByMail \<noteq> None) = (status sentByMail = Failed) \<and>
   (messageId sentByMail \<noteq> None) = (status sentByMail = Sent \<and> channel assignedRequest = Email) \<and>
   trackingId sentByMail = messageId sentByMail"
proof -
  have a: "fst (sendNotification healthyServices assignedRequest) = Inr sentByMail"
    by (simp add: sample_defs dispatch_defs sentByMail_def)
  from response_shape[OF disjI1[OF a]] a show ?thesis by simp
qed

text \<open>The sample request on in_app: \<^verbatim>\<open>sent\<close>, with no message id and no tracking id.\<close>

theorem stub_sent_without_message_id:
  "fst (sendNotification healthyServices (assignedRequest\<lparr>channel := InApp\<rparr>)) =
     Inr \<lparr>resp_id = ''n-1'', status = Sent, sentAt = Some 1000, deliveredAt = None,
          failedAt = None, error = None, messageId = None, trackingId = None\<rparr>"
  by (simp add: sample_defs dispatch_defs)

section \<open>Order of the background sweep\<close>

text \<open>
  C6 does not hold of the code: the sweep orders by the text of the priority, not by its
  severity. For three pending rows due at the same time with priorities low, critical and
  medium, the page that \<^verbatim>\<open>getPendingNotifications\<close> returns, and that is handed to the
  batches in that order, is medium, low, critical.
\<close>

theorem sweep_orders_by_priority_text:
  "map priority (getPendingNotifications 1000 50 sampleTable) = [Medium, Low, Critical] \<and>
   map (map priority) (sweepBatches (getPendingNotifications 1000 50 sampleTable)) =
     [[Medium, Low, Critical]]"
  by (simp add: getPendingNotifications_def sampleTable_def sampleRow_def is_due_def
      sorts_before_def row_request_def sweepBatches.simps)

section \<open>Round trip of the unsubscribe token\<close>

text \<open>
  C10. For every recipient id that contains no colon, and every time of generation, the
  decoding of the unsubscribe handler (URI-decode, Base64-decode, split at the colon)
  applied to the generated token yields the recipient id as user id and the decimal
  timestamp, which is not empty, so the handler accepts the token. A recipient id is never
  empty: the requests of the controller are refused without one, and the column of the
  table is \<^verbatim>\<open>NOT NULL\<close>.
\<close>

theorem unsubscribe_token_roundtrip:
  assumes "rid \<noteq> []" and "CHR '':'' \<notin> set rid"
  shows "unsubscribe (Some (generateUnsubscribeToken now rid)) = Unsubscribed rid (decimal now) \<and>
         decimal now \<noteq> []"
  using assms
  by (simp add: unsubscribe_def truthy_def or_else_def token_nonempty token_decodes token_parts
      nth_opt_def decimal_nonempty Let_def)

text \<open>The recipient of the sample request.\<close>

theorem unsubscribe_token_roundtrip_witness:
  "''U1'' \<noteq> [] \<and> CHR '':'' \<notin> set ''U1'' \<and>
   unsubscribe (Some (generateUnsubscribeToken 1700000000000 ''U1'')) =
     Unsubscribed ''U1'' ''1700000000000''"
proof -
  have d: "decimal 1700000000000 = ''1700000000000''"
    by (simp add: decimal.simps digit_char_def)
  from unsubscribe_token_roundtrip[of "''U1''" 1700000000000] d show ?thesis by simp
qed

end
